theory Spec2Isabelle
  imports Complex_Main
begin

section \<open>The recommendation engine of services/recommendationEngine.js\<close>

text \<open>
  A shallow embedding of the class \<^verbatim>\<open>RecommendationEngine\<close>. Every method of the class
  becomes a function of the same name; what the JavaScript reads from its surroundings
  (the clock, the random source, the MongoDB handle) is passed as an argument.

  Conventions of the embedding:
  \<^item> a document field that may be missing is an \<open>option\<close>; \<open>None\<close> is JavaScript's
    \<^verbatim>\<open>undefined\<close>, so \<^verbatim>\<open>x || d\<close> is a case distinction on it;
  \<^item> a number is a \<open>jsnum\<close>: a real, an infinity or NaN. Rounding of doubles and the
    sign of zero are not modelled;
  \<^item> a string is a sequence of UTF-16 code units below U+0100 (Basic Latin and the
    Latin-1 Supplement): the \<open>char\<close> with the code \<open>n\<close> is the code unit \<open>n\<close>, so that
    \<open>CHR 0xC9\<close> is the letter E with acute. Strings with other code units are outside
    the model;
  \<^item> a thrown exception (and a rejected promise) is the left summand of \<open>error + 'a\<close>.
\<close>

subsection \<open>Numbers\<close>

datatype jsnum = Fin real | PosInf | NegInf | NaN

fun js_neg :: "jsnum \<Rightarrow> jsnum" where
  "js_neg (Fin a) = Fin (- a)"
| "js_neg PosInf = NegInf"
| "js_neg NegInf = PosInf"
| "js_neg NaN = NaN"

fun js_add :: "jsnum \<Rightarrow> jsnum \<Rightarrow> jsnum" where
  "js_add (Fin a) (Fin b) = Fin (a + b)"
| "js_add NaN y = NaN"
| "js_add x NaN = NaN"
| "js_add PosInf NegInf = NaN"
| "js_add NegInf PosInf = NaN"
| "js_add PosInf y = PosInf"
| "js_add x PosInf = PosInf"
| "js_add NegInf y = NegInf"
| "js_add x NegInf = NegInf"

definition js_sub :: "jsnum \<Rightarrow> jsnum \<Rightarrow> jsnum" where
  "js_sub x y = js_add x (js_neg y)"

text \<open>The sign of a number: \<open>Some True\<close> for a positive one, \<open>Some False\<close> for a negative
  one, \<open>None\<close> for zero and NaN.\<close>

fun js_sign :: "jsnum \<Rightarrow> bool option" where
  "js_sign (Fin a) = (if a > 0 then Some True else if a < 0 then Some False else None)"
| "js_sign PosInf = Some True"
| "js_sign NegInf = Some False"
| "js_sign NaN = None"

fun js_mul :: "jsnum \<Rightarrow> jsnum \<Rightarrow> jsnum" where
  "js_mul (Fin a) (Fin b) = Fin (a * b)"
| "js_mul NaN y = NaN"
| "js_mul x NaN = NaN"
| "js_mul x y =
     (case (js_sign x, js_sign y) of
        (Some s, Some t) \<Rightarrow> if s = t then PosInf else NegInf
      | _ \<Rightarrow> NaN)"

text \<open>Division. A zero divisor is taken as \<^verbatim>\<open>+0\<close>: the only divisor of the engine that can
  vanish is the sum \<^verbatim>\<open>1 + ageInDays * decayRate\<close>, and a sum that vanishes is \<^verbatim>\<open>+0\<close>.\<close>

fun js_div :: "jsnum \<Rightarrow> jsnum \<Rightarrow> jsnum" where
  "js_div (Fin a) (Fin b) =
     (if b \<noteq> 0 then Fin (a / b)
      else if a > 0 then PosInf else if a < 0 then NegInf else NaN)"
| "js_div NaN y = NaN"
| "js_div x NaN = NaN"
| "js_div (Fin a) y = Fin 0"
| "js_div x (Fin b) =
     (if (js_sign x = Some True) = (b \<ge> 0) then PosInf else NegInf)"
| "js_div x y = NaN"

text \<open>\<^verbatim>\<open>Math.min\<close> of two numbers.\<close>

fun js_min :: "jsnum \<Rightarrow> jsnum \<Rightarrow> jsnum" where
  "js_min (Fin a) (Fin b) = Fin (min a b)"
| "js_min NaN y = NaN"
| "js_min x NaN = NaN"
| "js_min NegInf y = NegInf"
| "js_min x NegInf = NegInf"
| "js_min PosInf y = y"
| "js_min x PosInf = x"

text \<open>\<^verbatim>\<open>x > 0\<close>, false for NaN.\<close>

definition js_positive :: "jsnum \<Rightarrow> bool" where
  "js_positive x = (js_sign x = Some True)"

text \<open>A value read where a number is expected: \<^verbatim>\<open>undefined\<close> converts to NaN.\<close>

fun toNumber :: "jsnum option \<Rightarrow> jsnum" where
  "toNumber None = NaN"
| "toNumber (Some x) = x"

subsection \<open>Strings\<close>

text \<open>\<^verbatim>\<open>s.toLowerCase()\<close> replaces every upper-case letter by its lower-case letter. Below
  U+0100 the upper-case letters are A to Z and U+00C0 to U+00DE without the
  multiplication sign U+00D7; the lower-case letter of each lies 0x20 above it.\<close>

definition upper_letters :: "char list" where
  "upper_letters = ''ABCDEFGHIJKLMNOPQRSTUVWXYZ'' @
     [CHR 0xC0, CHR 0xC1, CHR 0xC2, CHR 0xC3, CHR 0xC4, CHR 0xC5, CHR 0xC6, CHR 0xC7,
      CHR 0xC8, CHR 0xC9, CHR 0xCA, CHR 0xCB, CHR 0xCC, CHR 0xCD, CHR 0xCE, CHR 0xCF,
      CHR 0xD0, CHR 0xD1, CHR 0xD2, CHR 0xD3, CHR 0xD4, CHR 0xD5, CHR 0xD6,
      CHR 0xD8, CHR 0xD9, CHR 0xDA, CHR 0xDB, CHR 0xDC, CHR 0xDD, CHR 0xDE]"

definition lower_letters :: "char list" where
  "lower_letters = ''abcdefghijklmnopqrstuvwxyz'' @
     [CHR 0xE0, CHR 0xE1, CHR 0xE2, CHR 0xE3, CHR 0xE4, CHR 0xE5, CHR 0xE6, CHR 0xE7,
      CHR 0xE8, CHR 0xE9, CHR 0xEA, CHR 0xEB, CHR 0xEC, CHR 0xED, CHR 0xEE, CHR 0xEF,
      CHR 0xF0, CHR 0xF1, CHR 0xF2, CHR 0xF3, CHR 0xF4, CHR 0xF5, CHR 0xF6,
      CHR 0xF8, CHR 0xF9, CHR 0xFA, CHR 0xFB, CHR 0xFC, CHR 0xFD, CHR 0xFE]"

definition lower_char :: "char \<Rightarrow> char" where
  "lower_char c =
     (case map_of (zip upper_letters lower_letters) c of
        Some l \<Rightarrow> l
      | None \<Rightarrow> c)"

definition toLowerCase :: "string \<Rightarrow> string" where
  "toLowerCase s = map lower_char s"

fun startsWith :: "string \<Rightarrow> string \<Rightarrow> bool" where
  "startsWith s [] = True"
| "startsWith [] (c # cs) = False"
| "startsWith (a # s) (c # cs) = (a = c \<and> startsWith s cs)"

text \<open>\<^verbatim>\<open>s.includes(t)\<close>: \<open>t\<close> occurs in \<open>s\<close> as a contiguous piece.\<close>

fun str_includes :: "string \<Rightarrow> string \<Rightarrow> bool" where
  "str_includes [] t = (t = [])"
| "str_includes (a # s) t = (startsWith (a # s) t \<or> str_includes s t)"

subsection \<open>Documents\<close>

text \<open>A content document, as the content route stores it. \<open>created_at\<close> is the date's
  \<^verbatim>\<open>getTime()\<close>, in milliseconds; the route sets it on every document.\<close>

record item =
  item_id :: string
  status :: string
  tags :: "string list option"
  requirements :: "string list option"
  location :: "string option"
  created_at :: int
  likes_count :: "nat option"
  saves_count :: "nat option"
  views :: "nat option"
  ctype :: "string option"

record location_data =
  country :: "string option"
  province :: "string option"
  city :: "string option"

text \<open>A document of \<^verbatim>\<open>user_profiles\<close>: lists of strings from onboarding.\<close>

record user_profile =
  profile_interests :: "string list option"
  profile_skills :: "string list option"
  profile_location_data :: "location_data option"

text \<open>What a key of a stored object holds: a number, or a string.\<close>

datatype js_value = Num real | Str string

text \<open>A document of \<^verbatim>\<open>user_preferences\<close>: \<^verbatim>\<open>interests\<close> and \<^verbatim>\<open>skills\<close> are the objects
  that \<^verbatim>\<open>updatePreferencesFromEngagement\<close> maintains, from a tag to its weight. The map
  holds the own keys of the object; what a plain object inherits from
  \<^verbatim>\<open>Object.prototype\<close> is \<open>object_prototype\<close> below.\<close>

record user_preferences =
  pref_interests :: "(string \<rightharpoonup> js_value) option"
  pref_skills :: "(string \<rightharpoonup> js_value) option"
  pref_location_data :: "location_data option"
  updated_at :: int

subsection \<open>Age, recency and popularity\<close>

definition decayRate :: real where
  "decayRate = 0.1"

definition exploreFactor :: real where
  "exploreFactor = 0.05"

text \<open>\<^verbatim>\<open>(Date.now() - new Date(item.created_at).getTime()) / (1000 * 60 * 60 * 24)\<close>\<close>

definition ageInDays :: "int \<Rightarrow> item \<Rightarrow> real" where
  "ageInDays now it = real_of_int (now - created_at it) / (1000 * 60 * 60 * 24)"

definition calculateRecency :: "int \<Rightarrow> item \<Rightarrow> jsnum" where
  "calculateRecency now it =
     (if ageInDays now it \<le> 1 then Fin 100
      else if ageInDays now it \<le> 7 then Fin 80
      else if ageInDays now it \<le> 30 then Fin 60
      else if ageInDays now it \<le> 90 then Fin 40
      else Fin 20)"

text \<open>\<^verbatim>\<open>item.likes_count || 0\<close>\<close>

fun or_zero :: "nat option \<Rightarrow> nat" where
  "or_zero None = 0"
| "or_zero (Some n) = n"

definition rawPopularity :: "item \<Rightarrow> nat" where
  "rawPopularity it = or_zero (likes_count it) + or_zero (saves_count it) + or_zero (views it)"

definition calculateDecayedPopularity :: "int \<Rightarrow> item \<Rightarrow> jsnum" where
  "calculateDecayedPopularity now it =
     (let popularity = Fin (real (rawPopularity it));
          decayedPopularity = js_div popularity (Fin (1 + ageInDays now it * decayRate))
      in js_min (js_div decayedPopularity (Fin 10)) (Fin 100))"

subsection \<open>Matching interests and skills\<close>

datatype error = TypeError | NotConnected | StoreFailure

text \<open>What the variable \<^verbatim>\<open>userInterests\<close> (and \<^verbatim>\<open>userSkills\<close>) can hold: the array of a
  profile, or the weight object of a preferences document.\<close>

datatype js_collection = JArray "string list" | JObject "string \<rightharpoonup> js_value"

text \<open>\<^verbatim>\<open>userProfile?.interests || userPreferences?.interests || []\<close>. Arrays and objects
  are truthy, the empty ones too, so the chain passes over a missing field only.\<close>

definition userInterests :: "user_profile option \<Rightarrow> user_preferences option \<Rightarrow> js_collection" where
  "userInterests userProfile userPreferences =
     (case Option.bind userProfile profile_interests of
        Some xs \<Rightarrow> JArray xs
      | None \<Rightarrow>
          (case Option.bind userPreferences pref_interests of
             Some m \<Rightarrow> JObject m
           | None \<Rightarrow> JArray []))"

definition userSkills :: "user_profile option \<Rightarrow> user_preferences option \<Rightarrow> js_collection" where
  "userSkills userProfile userPreferences =
     (case Option.bind userProfile profile_skills of
        Some xs \<Rightarrow> JArray xs
      | None \<Rightarrow>
          (case Option.bind userPreferences pref_skills of
             Some m \<Rightarrow> JObject m
           | None \<Rightarrow> JArray []))"

text \<open>The property \<^verbatim>\<open>length\<close>: an array's length; on an object the value under the key
  \<^verbatim>\<open>length\<close>, if it has one (\<^verbatim>\<open>Object.prototype\<close> has no such member).\<close>

fun js_length :: "js_collection \<Rightarrow> js_value option" where
  "js_length (JArray xs) = Some (Num (real (length xs)))"
| "js_length (JObject m) = m ''length''"

text \<open>The length as a divisor. The division of a matcher is reached with an array only:
  on an object \<^verbatim>\<open>some\<close> has thrown before (lemmas \<open>interest_match_of_object\<close> and
  \<open>skill_match_of_object\<close>), so the value given for a string is never used.\<close>

fun number_of :: "js_value option \<Rightarrow> jsnum" where
  "number_of (Some (Num a)) = Fin a"
| "number_of v = NaN"

text \<open>\<^verbatim>\<open>c.some(p)\<close>: an object has no method \<^verbatim>\<open>some\<close>, and the call throws a TypeError.\<close>

fun js_some :: "js_collection \<Rightarrow> (string \<Rightarrow> bool) \<Rightarrow> error + bool" where
  "js_some (JArray xs) p = Inr (list_ex p xs)"
| "js_some (JObject m) p = Inl TypeError"

text \<open>\<^verbatim>\<open>xs.filter(f)\<close> for a callback that can throw: the first exception ends the call.\<close>

fun filter_e :: "('a \<Rightarrow> error + bool) \<Rightarrow> 'a list \<Rightarrow> error + 'a list" where
  "filter_e f [] = Inr []"
| "filter_e f (x # xs) =
     (case f x of
        Inl e \<Rightarrow> Inl e
      | Inr b \<Rightarrow>
          (case filter_e f xs of
             Inl e \<Rightarrow> Inl e
           | Inr ys \<Rightarrow> Inr (if b then x # ys else ys)))"

text \<open>The test both matchers apply to a pair of strings.\<close>

definition either_includes :: "string \<Rightarrow> string \<Rightarrow> bool" where
  "either_includes a b =
     (str_includes (toLowerCase a) (toLowerCase b) \<or> str_includes (toLowerCase b) (toLowerCase a))"

fun or_nil :: "string list option \<Rightarrow> string list" where
  "or_nil None = []"
| "or_nil (Some xs) = xs"

definition calculateInterestMatch ::
  "item \<Rightarrow> user_profile option \<Rightarrow> user_preferences option \<Rightarrow> error + jsnum" where
  "calculateInterestMatch it userProfile userPreferences =
     (let interests = userInterests userProfile userPreferences;
          itemTags = or_nil (tags it)
      in if js_length interests = Some (Num 0) \<or> length itemTags = 0 then Inr (Fin 0)
         else
           (case filter_e (\<lambda>tag. js_some interests (\<lambda>interest. either_includes interest tag))
                   itemTags of
              Inl e \<Rightarrow> Inl e
            | Inr matchedInterests \<Rightarrow>
                Inr (js_mul (js_div (Fin (real (length matchedInterests)))
                                    (number_of (js_length interests)))
                            (Fin 100))))"

definition calculateSkillMatch ::
  "item \<Rightarrow> user_profile option \<Rightarrow> user_preferences option \<Rightarrow> error + jsnum" where
  "calculateSkillMatch it userProfile userPreferences =
     (let skills = userSkills userProfile userPreferences;
          itemRequirements = or_nil (requirements it)
      in if js_length skills = Some (Num 0) \<or> length itemRequirements = 0 then Inr (Fin 0)
         else
           (case filter_e (\<lambda>req. js_some skills (\<lambda>skill. either_includes skill req))
                   itemRequirements of
              Inl e \<Rightarrow> Inl e
            | Inr matchedSkills \<Rightarrow>
                Inr (js_mul (js_div (Fin (real (length matchedSkills)))
                                    (Fin (real (length itemRequirements))))
                            (Fin 100))))"

subsection \<open>Matching the location\<close>

text \<open>\<^verbatim>\<open>userProfile?.location_data || userPreferences?.location_data || {}\<close>\<close>

definition userLocation :: "user_profile option \<Rightarrow> user_preferences option \<Rightarrow> location_data" where
  "userLocation userProfile userPreferences =
     (case Option.bind userProfile profile_location_data of
        Some l \<Rightarrow> l
      | None \<Rightarrow>
          (case Option.bind userPreferences pref_location_data of
             Some l \<Rightarrow> l
           | None \<Rightarrow> \<lparr>country = None, province = None, city = None\<rparr>))"

text \<open>A string field in a condition: missing and empty are both falsy.\<close>

fun truthy :: "string option \<Rightarrow> bool" where
  "truthy None = False"
| "truthy (Some s) = (s \<noteq> [])"

fun or_empty :: "string option \<Rightarrow> string" where
  "or_empty None = []"
| "or_empty (Some s) = s"

definition calculateLocationMatch ::
  "item \<Rightarrow> user_profile option \<Rightarrow> user_preferences option \<Rightarrow> jsnum" where
  "calculateLocationMatch it userProfile userPreferences =
     (let loc = userLocation userProfile userPreferences;
          itemLocation = or_empty (location it)
      in if \<not> truthy (country loc) \<and> \<not> truthy (province loc) \<and> \<not> truthy (city loc)
         then Fin 50
         else if str_includes (toLowerCase itemLocation) ''remote'' \<or>
                 str_includes (toLowerCase itemLocation) ''virtual'' \<or>
                 str_includes (toLowerCase itemLocation) ''online''
         then Fin 100
         else if truthy (city loc) \<and>
                 str_includes (toLowerCase itemLocation) (toLowerCase (or_empty (city loc)))
         then Fin 100
         else if truthy (province loc) \<and>
                 str_includes (toLowerCase itemLocation) (toLowerCase (or_empty (province loc)))
         then Fin 80
         else if truthy (country loc) \<and>
                 str_includes (toLowerCase itemLocation) (toLowerCase (or_empty (country loc)))
         then Fin 60
         else Fin 20)"

subsection \<open>The score of one item\<close>

text \<open>\<^verbatim>\<open>Math.random() * 100\<close>; the draw is the argument \<open>rnd\<close>.\<close>

definition calculateExploreFactor :: "real \<Rightarrow> item \<Rightarrow> jsnum" where
  "calculateExploreFactor rnd it = Fin (rnd * 100)"

record scores =
  interestMatch :: jsnum
  skillMatch :: jsnum
  locationMatch :: jsnum
  popularity :: jsnum
  recency :: jsnum
  explore :: jsnum

text \<open>An item with the two keys the engine adds to it. \<open>score = None\<close> is the key set to
  \<^verbatim>\<open>undefined\<close>; \<open>scoreBreakdown = None\<close> is an object without that key.\<close>

record candidate =
  content :: item
  score :: "jsnum option"
  scoreBreakdown :: "scores option"

definition totalScore :: "scores \<Rightarrow> jsnum" where
  "totalScore s =
     js_add (js_add (js_add (js_add (js_add
       (js_mul (interestMatch s) (Fin 0.4))
       (js_mul (skillMatch s) (Fin 0.25)))
       (js_mul (locationMatch s) (Fin 0.05)))
       (js_mul (popularity s) (Fin 0.15)))
       (js_mul (recency s) (Fin 0.1)))
       (js_mul (explore s) (Fin 0.05))"

text \<open>The three personal sub-scores stay 0 unless a profile or a preferences document is
  there. An exception of a matcher leaves the method (the promise is rejected).\<close>

definition calculateScore ::
  "int \<Rightarrow> real \<Rightarrow> item \<Rightarrow> user_profile option \<Rightarrow> user_preferences option \<Rightarrow> error + candidate" where
  "calculateScore now rnd it userProfile userPreferences =
     (case (if userProfile \<noteq> None \<or> userPreferences \<noteq> None
            then (case calculateInterestMatch it userProfile userPreferences of
                    Inl e \<Rightarrow> Inl e
                  | Inr i \<Rightarrow>
                      (case calculateSkillMatch it userProfile userPreferences of
                         Inl e \<Rightarrow> Inl e
                       | Inr s \<Rightarrow>
                           Inr (i, s, calculateLocationMatch it userProfile userPreferences)))
            else Inr (Fin 0, Fin 0, Fin 0)) of
        Inl e \<Rightarrow> Inl e
      | Inr (i, s, l) \<Rightarrow>
          (let breakdown =
                 \<lparr>interestMatch = i, skillMatch = s, locationMatch = l,
                  popularity = calculateDecayedPopularity now it,
                  recency = calculateRecency now it,
                  explore = calculateExploreFactor rnd it\<rparr>
           in Inr \<lparr>content = it, score = Some (totalScore breakdown),
                   scoreBreakdown = Some breakdown\<rparr>))"

subsection \<open>The store\<close>

text \<open>The MongoDB handle of config/database.js and the collections the engine uses.
  \<open>connected\<close> is false before \<^verbatim>\<open>connectDB\<close>, and then \<^verbatim>\<open>getDB\<close> throws. An operation
  listed in \<open>failing\<close> is one the server rejects.\<close>

datatype collection = UserProfiles | UserPreferences | Opportunities | Events | Jobs | Resources

datatype db_operation = FindOne collection | Find collection | UpdateOne collection

record database =
  connected :: bool
  failing :: "db_operation set"
  user_profiles :: "string \<rightharpoonup> user_profile"
  user_preferences :: "string \<rightharpoonup> user_preferences"
  opportunities :: "item list"
  events :: "item list"
  jobs :: "item list"
  resources :: "item list"

definition bind_e :: "error + 'a \<Rightarrow> ('a \<Rightarrow> error + 'b) \<Rightarrow> error + 'b" where
  "bind_e m f = (case m of Inl e \<Rightarrow> Inl e | Inr x \<Rightarrow> f x)"

text \<open>\<^verbatim>\<open>try { ... } catch (error) { ... }\<close>\<close>

definition catch_e :: "error + 'a \<Rightarrow> (error \<Rightarrow> error + 'a) \<Rightarrow> error + 'a" where
  "catch_e m h = (case m of Inl e \<Rightarrow> h e | Inr x \<Rightarrow> Inr x)"

definition getDB :: "database \<Rightarrow> error + database" where
  "getDB db = (if connected db then Inr db else Inl NotConnected)"

text \<open>\<^verbatim>\<open>db.collection('user_profiles').findOne({ user_id: userId })\<close>\<close>

definition findOne_profile :: "database \<Rightarrow> string \<Rightarrow> error + user_profile option" where
  "findOne_profile db userId =
     (if FindOne UserProfiles \<in> failing db then Inl StoreFailure
      else Inr (user_profiles db userId))"

definition findOne_preferences :: "database \<Rightarrow> string \<Rightarrow> error + user_preferences option" where
  "findOne_preferences db userId =
     (if FindOne UserPreferences \<in> failing db then Inl StoreFailure
      else Inr (user_preferences db userId))"

fun documents :: "database \<Rightarrow> collection \<Rightarrow> item list" where
  "documents db Opportunities = opportunities db"
| "documents db Events = events db"
| "documents db Jobs = jobs db"
| "documents db Resources = resources db"
| "documents db c = []"

text \<open>\<^verbatim>\<open>db.collection(c).find({ status: 'active' }).toArray()\<close>\<close>

definition find_active :: "database \<Rightarrow> collection \<Rightarrow> error + item list" where
  "find_active db c =
     (if Find c \<in> failing db then Inl StoreFailure
      else Inr (filter (\<lambda>d. status d = ''active'') (documents db c)))"

text \<open>\<^verbatim>\<open>updateOne({ user_id: userId }, { $set: ... })\<close> on \<^verbatim>\<open>user_preferences\<close>; \<open>f\<close> sets the
  fields.\<close>

definition updateOne_preferences ::
  "database \<Rightarrow> string \<Rightarrow> (user_preferences \<Rightarrow> user_preferences) \<Rightarrow> error + database" where
  "updateOne_preferences db userId f =
     (if UpdateOne UserPreferences \<in> failing db then Inl StoreFailure
      else Inr (case user_preferences db userId of
                  None \<Rightarrow> db
                | Some p \<Rightarrow> db\<lparr>user_preferences := (user_preferences db)(userId \<mapsto> f p)\<rparr>))"

subsection \<open>The active content\<close>

text \<open>One of the four blocks of \<^verbatim>\<open>getActiveContent\<close>: the collection is read when all types
  or its own type is asked for, and each document gets its type.\<close>

definition active_of :: "database \<Rightarrow> string \<Rightarrow> string \<Rightarrow> collection \<Rightarrow> error + item list" where
  "active_of db contentType name c =
     (if contentType = ''all'' \<or> contentType = name
      then bind_e (find_active db c) (\<lambda>docs. Inr (map (\<lambda>d. d\<lparr>ctype := Some name\<rparr>) docs))
      else Inr [])"

definition getActiveContent :: "database \<Rightarrow> string \<Rightarrow> error + item list" where
  "getActiveContent db0 contentType =
     bind_e (getDB db0) (\<lambda>db.
     bind_e (active_of db contentType ''opportunity'' Opportunities) (\<lambda>os.
     bind_e (active_of db contentType ''event'' Events) (\<lambda>es.
     bind_e (active_of db contentType ''job'' Jobs) (\<lambda>js.
     bind_e (active_of db contentType ''resource'' Resources) (\<lambda>rs.
     Inr (os @ es @ js @ rs))))))"

subsection \<open>Sorting and slicing\<close>

text \<open>\<^verbatim>\<open>xs.sort(cmp)\<close>. The sort of JavaScript is stable, and for a comparator that orders
  the elements consistently its result is the one of a stable insertion sort: \<open>x\<close> goes
  behind \<open>y\<close> when \<^verbatim>\<open>cmp(x, y) > 0\<close>. (With NaN among the scores no order is specified.)\<close>

fun insert_by :: "('a \<Rightarrow> 'a \<Rightarrow> jsnum) \<Rightarrow> 'a \<Rightarrow> 'a list \<Rightarrow> 'a list" where
  "insert_by cmp x [] = [x]"
| "insert_by cmp x (y # ys) =
     (if js_positive (cmp x y) then y # insert_by cmp x ys else x # y # ys)"

definition js_sort :: "('a \<Rightarrow> 'a \<Rightarrow> jsnum) \<Rightarrow> 'a list \<Rightarrow> 'a list" where
  "js_sort cmp xs = foldr (insert_by cmp) xs []"

text \<open>\<^verbatim>\<open>(a, b) => b.score - a.score\<close>\<close>

definition by_score :: "candidate \<Rightarrow> candidate \<Rightarrow> jsnum" where
  "by_score a b = js_sub (toNumber (score b)) (toNumber (score a))"

text \<open>\<^verbatim>\<open>xs.slice(0, end)\<close> for an integer \<open>end\<close>: a negative one counts from the end.\<close>

definition slice0 :: "int \<Rightarrow> 'a list \<Rightarrow> 'a list" where
  "slice0 e xs = (if e < 0 then take (nat (int (length xs) + e)) xs else take (nat e) xs)"

text \<open>\<^verbatim>\<open>item => ({ ...item, score: undefined })\<close>\<close>

definition strip_score :: "candidate \<Rightarrow> candidate" where
  "strip_score c = c\<lparr>score := None\<rparr>"

subsection \<open>Ranking\<close>

text \<open>\<^verbatim>\<open>item => ({ ...item, score: (item.likes_count || 0) + (item.saves_count || 0) +
  (item.views || 0) })\<close>\<close>

definition cold_candidate :: "item \<Rightarrow> candidate" where
  "cold_candidate d =
     \<lparr>content = d, score = Some (Fin (real (rawPopularity d))), scoreBreakdown = None\<rparr>"

definition getColdStartRecommendations :: "database \<Rightarrow> string \<Rightarrow> int \<Rightarrow> error + candidate list" where
  "getColdStartRecommendations db0 contentType limit =
     bind_e (getDB db0) (\<lambda>db.
     bind_e (getActiveContent db0 contentType) (\<lambda>items.
     Inr (map strip_score (slice0 limit (js_sort by_score (map cold_candidate items))))))"

text \<open>\<^verbatim>\<open>Promise.all\<close> over promises that are all settled: the first rejection, or all the
  values.\<close>

fun promise_all :: "(error + 'a) list \<Rightarrow> error + 'a list" where
  "promise_all [] = Inr []"
| "promise_all (p # ps) =
     (case p of
        Inl e \<Rightarrow> Inl e
      | Inr x \<Rightarrow> (case promise_all ps of Inl e \<Rightarrow> Inl e | Inr xs \<Rightarrow> Inr (x # xs)))"

text \<open>The body of the \<^verbatim>\<open>try\<close> block of \<^verbatim>\<open>getRecommendations\<close>. \<open>now\<close> is the clock of the
  request and \<open>rand k\<close> the draw of \<^verbatim>\<open>Math.random()\<close> for the \<open>k\<close>-th item.\<close>

definition recommend_body ::
  "int \<Rightarrow> (nat \<Rightarrow> real) \<Rightarrow> database \<Rightarrow> string \<Rightarrow> string \<Rightarrow> int \<Rightarrow> error + candidate list" where
  "recommend_body now rand db0 userId contentType limit =
     bind_e (getDB db0) (\<lambda>db.
     bind_e (findOne_profile db userId) (\<lambda>userProfile.
     bind_e (findOne_preferences db userId) (\<lambda>userPreferences.
       if userProfile = None \<and> userPreferences = None
       then getColdStartRecommendations db0 contentType limit
       else
         bind_e (getActiveContent db0 contentType) (\<lambda>items.
         bind_e (promise_all
                   (map (\<lambda>(k, d). calculateScore now (rand k) d userProfile userPreferences)
                        (enumerate 0 items))) (\<lambda>scoredContent.
         Inr (map strip_score (slice0 limit (js_sort by_score scoredContent))))))))"

text \<open>A result together with the lines written to the console.\<close>

definition getRecommendations ::
  "int \<Rightarrow> (nat \<Rightarrow> real) \<Rightarrow> database \<Rightarrow> string \<Rightarrow> string \<Rightarrow> int
     \<Rightarrow> error + (candidate list \<times> string list)" where
  "getRecommendations now rand db userId contentType limit =
     catch_e (bind_e (recommend_body now rand db userId contentType limit) (\<lambda>r. Inr (r, [])))
             (\<lambda>e. Inr ([], [''Recommendation error:'']))"

subsection \<open>Learning from engagement\<close>

text \<open>The weight objects are plain objects, so a lookup that finds no own key goes on to
  \<^verbatim>\<open>Object.prototype\<close>. Its members are functions, and \<^verbatim>\<open>__proto__\<close> yields the prototype
  itself. The engine only tests such a value for truth and adds a number to it; both see
  the text the value converts to, which is listed here with each member.\<close>

definition object_prototype :: "(string \<times> string) list" where
  "object_prototype =
     [(''constructor'', ''function Object() { [native code] }''),
      (''__defineGetter__'', ''function __defineGetter__() { [native code] }''),
      (''__defineSetter__'', ''function __defineSetter__() { [native code] }''),
      (''hasOwnProperty'', ''function hasOwnProperty() { [native code] }''),
      (''__lookupGetter__'', ''function __lookupGetter__() { [native code] }''),
      (''__lookupSetter__'', ''function __lookupSetter__() { [native code] }''),
      (''isPrototypeOf'', ''function isPrototypeOf() { [native code] }''),
      (''propertyIsEnumerable'', ''function propertyIsEnumerable() { [native code] }''),
      (''toString'', ''function toString() { [native code] }''),
      (''valueOf'', ''function valueOf() { [native code] }''),
      (''toLocaleString'', ''function toLocaleString() { [native code] }''),
      (''__proto__'', ''[object Object]'')]"

text \<open>\<^verbatim>\<open>m[k]\<close>: the own key, else the inherited member, else \<^verbatim>\<open>undefined\<close>.\<close>

definition get_member :: "(string \<rightharpoonup> js_value) \<Rightarrow> string \<Rightarrow> js_value option" where
  "get_member m k =
     (case m k of
        Some v \<Rightarrow> Some v
      | None \<Rightarrow> map_option Str (map_of object_prototype k))"

text \<open>\<^verbatim>\<open>m[k] = v\<close> for a number or a string \<open>v\<close>. The setter of \<^verbatim>\<open>__proto__\<close> ignores such a
  value, unless the object has an own key of that name.\<close>

definition set_member :: "(string \<rightharpoonup> js_value) \<Rightarrow> string \<Rightarrow> js_value \<Rightarrow> (string \<rightharpoonup> js_value)" where
  "set_member m k v = (if k = ''__proto__'' \<and> m k = None then m else m(k \<mapsto> v))"

text \<open>\<^verbatim>\<open>v || 0\<close>: \<^verbatim>\<open>undefined\<close>, 0 and the empty string are falsy.\<close>

fun or_0 :: "js_value option \<Rightarrow> js_value" where
  "or_0 None = Num 0"
| "or_0 (Some (Num a)) = Num a"
| "or_0 (Some (Str s)) = (if s = [] then Num 0 else Str s)"

text \<open>The two increments of the learner, \<^verbatim>\<open>1\<close> and \<^verbatim>\<open>0.5\<close>, as numbers and as the text they
  have when they are appended to a string.\<close>

datatype increment = One | Half

fun inc_num :: "increment \<Rightarrow> real" where
  "inc_num One = 1"
| "inc_num Half = 0.5"

fun inc_text :: "increment \<Rightarrow> string" where
  "inc_text One = ''1''"
| "inc_text Half = ''0.5''"

text \<open>\<^verbatim>\<open>v + 1\<close> and \<^verbatim>\<open>v + 0.5\<close>: addition on a number, concatenation on a string.\<close>

fun js_plus :: "js_value \<Rightarrow> increment \<Rightarrow> js_value" where
  "js_plus (Num a) i = Num (a + inc_num i)"
| "js_plus (Str s) i = Str (s @ inc_text i)"

text \<open>\<^verbatim>\<open>m[k] = (m[k] || 0) + 1\<close>, and the same with \<^verbatim>\<open>0.5\<close>.\<close>

definition bump :: "increment \<Rightarrow> string \<Rightarrow> (string \<rightharpoonup> js_value) \<Rightarrow> (string \<rightharpoonup> js_value)" where
  "bump i k m = set_member m k (js_plus (or_0 (get_member m k)) i)"

text \<open>\<^verbatim>\<open>preferences.interests || {}\<close>\<close>

fun or_object :: "(string \<rightharpoonup> js_value) option \<Rightarrow> (string \<rightharpoonup> js_value)" where
  "or_object None = Map.empty"
| "or_object (Some m) = m"

text \<open>The body of the \<^verbatim>\<open>try\<close> block of \<^verbatim>\<open>updatePreferencesFromEngagement\<close>. The two
  conditions exclude each other, so at most one of the two updates runs.\<close>

definition learn_body :: "int \<Rightarrow> database \<Rightarrow> string \<Rightarrow> string \<Rightarrow> item \<Rightarrow> error + database" where
  "learn_body now db0 userId engagementType itemData =
     bind_e (getDB db0) (\<lambda>db.
     bind_e (findOne_preferences db userId) (\<lambda>found.
       case found of
         None \<Rightarrow> Inr db
       | Some preferences \<Rightarrow>
           bind_e
             (if engagementType = ''save'' \<or> engagementType = ''like''
              then
                (let currentInterests =
                       fold (bump One) (or_nil (tags itemData))
                            (or_object (pref_interests preferences));
                     currentSkills =
                       fold (bump One) (or_nil (requirements itemData))
                            (or_object (pref_skills preferences))
                 in updateOne_preferences db userId
                      (\<lambda>p. p\<lparr>pref_interests := Some currentInterests,
                              pref_skills := Some currentSkills,
                              updated_at := now\<rparr>))
              else Inr db) (\<lambda>db1.
           if engagementType = ''click_through''
           then
             (let currentInterests =
                    fold (bump Half) (or_nil (tags itemData))
                         (or_object (pref_interests preferences))
              in updateOne_preferences db1 userId
                   (\<lambda>p. p\<lparr>pref_interests := Some currentInterests, updated_at := now\<rparr>))
           else Inr db1)))"

definition updatePreferencesFromEngagement ::
  "int \<Rightarrow> database \<Rightarrow> string \<Rightarrow> string \<Rightarrow> item \<Rightarrow> error + (database \<times> string list)" where
  "updatePreferencesFromEngagement now db userId engagementType itemData =
     catch_e (bind_e (learn_body now db userId engagementType itemData) (\<lambda>d. Inr (d, [])))
             (\<lambda>e. Inr (db, [''Error updating preferences from engagement:'']))"

subsection \<open>Example documents\<close>

definition job_a :: item where
  "job_a = \<lparr>item_id = ''a'', status = ''active'', tags = Some [''tech''],
     requirements = Some [''python''], location = Some ''Remote - Canada'', created_at = 0,
     likes_count = Some 1, saves_count = None, views = Some 2, ctype = None\<rparr>"

definition job_b :: item where
  "job_b = \<lparr>item_id = ''b'', status = ''active'',
     tags = Some [''tech'', ''technology'', ''fintech''],
     requirements = None, location = None, created_at = 0,
     likes_count = Some 3, saves_count = None, views = Some 7, ctype = None\<rparr>"

definition job_c :: item where
  "job_c = \<lparr>item_id = ''c'', status = ''draft'', tags = None,
     requirements = None, location = None, created_at = 0,
     likes_count = Some 90, saves_count = Some 9, views = None, ctype = None\<rparr>"

definition profile_tech :: user_profile where
  "profile_tech = \<lparr>profile_interests = Some [''tech''], profile_skills = Some [''sql''],
     profile_location_data = None\<rparr>"

definition profile_blank :: user_profile where
  "profile_blank = \<lparr>profile_interests = None, profile_skills = None,
     profile_location_data = None\<rparr>"

definition preferences_learned :: user_preferences where
  "preferences_learned = \<lparr>pref_interests = Some [''art'' \<mapsto> Num 3],
     pref_skills = Some [''python'' \<mapsto> Num 2], pref_location_data = None, updated_at = 0\<rparr>"

definition preferences_new :: user_preferences where
  "preferences_new = \<lparr>pref_interests = None, pref_skills = None,
     pref_location_data = None, updated_at = 0\<rparr>"

text \<open>A store with three jobs: \<open>u2\<close> has a profile only, \<open>u3\<close> and \<open>u4\<close> have preferences
  only, and no other user has a document.\<close>

definition store0 :: database where
  "store0 = \<lparr>connected = True, failing = {},
     user_profiles = [''u2'' \<mapsto> profile_tech],
     user_preferences = [''u3'' \<mapsto> preferences_learned, ''u4'' \<mapsto> preferences_new],
     opportunities = [], events = [], jobs = [job_a, job_b, job_c], resources = []\<rparr>"


text \<open>A profile written with capitals, and documents that hold a location only.\<close>

definition profile_dev :: user_profile where
  "profile_dev = \<lparr>profile_interests = Some [''Tech''], profile_skills = Some [''Python 3''],
     profile_location_data = None\<rparr>"

definition profile_at :: "location_data \<Rightarrow> user_profile" where
  "profile_at l = \<lparr>profile_interests = None, profile_skills = None,
     profile_location_data = Some l\<rparr>"

definition preferences_at :: "location_data \<Rightarrow> user_preferences" where
  "preferences_at l = \<lparr>pref_interests = None, pref_skills = None,
     pref_location_data = Some l, updated_at = 0\<rparr>"

definition in_toronto :: location_data where
  "in_toronto = \<lparr>country = Some ''Canada'', province = Some ''Ontario'', city = Some ''Toronto''\<rparr>"

definition city_only :: "string \<Rightarrow> location_data" where
  "city_only c = \<lparr>country = None, province = None, city = Some c\<rparr>"

definition nowhere :: location_data where
  "nowhere = \<lparr>country = None, province = None, city = None\<rparr>"

definition item_at :: "string \<Rightarrow> item" where
  "item_at s = \<lparr>item_id = ''l'', status = ''active'', tags = None, requirements = None,
     location = Some s, created_at = 0, likes_count = None, saves_count = None, views = None,
     ctype = None\<rparr>"

text \<open>A store whose jobs differ in their saves: the sums of the three counters are 10, 22
  and 11, and the fourth job is not active.\<close>

definition job_d :: item where
  "job_d = \<lparr>item_id = ''d'', status = ''active'', tags = None,
     requirements = None, location = None, created_at = 0,
     likes_count = Some 5, saves_count = None, views = Some 5, ctype = None\<rparr>"

definition job_e :: item where
  "job_e = \<lparr>item_id = ''e'', status = ''active'', tags = None,
     requirements = None, location = None, created_at = 0,
     likes_count = Some 1, saves_count = Some 20, views = Some 1, ctype = None\<rparr>"

definition job_f :: item where
  "job_f = \<lparr>item_id = ''f'', status = ''active'', tags = None,
     requirements = None, location = None, created_at = 0,
     likes_count = None, saves_count = Some 3, views = Some 8, ctype = None\<rparr>"

definition store1 :: database where
  "store1 = \<lparr>connected = True, failing = {},
     user_profiles = Map.empty, user_preferences = Map.empty,
     opportunities = [], events = [], jobs = [job_d, job_e, job_f, job_c], resources = []\<rparr>"

text \<open>An item with a tag that is the name of a member of \<^verbatim>\<open>Object.prototype\<close>.\<close>

definition job_g :: item where
  "job_g = \<lparr>item_id = ''g'', status = ''active'', tags = Some [''constructor'', ''build''],
     requirements = None, location = None, created_at = 0,
     likes_count = None, saves_count = None, views = None, ctype = None\<rparr>"

section \<open>Notions of the specification\<close>

text \<open>The definitions of this section are not code of the engine: they state, in the
  words of the specification, what the properties below compare the code with.\<close>

text \<open>A sub-score within its range: a real number from 0 to 100.\<close>

definition in_0_100 :: "jsnum \<Rightarrow> bool" where
  "in_0_100 x = (\<exists>r. x = Fin r \<and> 0 \<le> r \<and> r \<le> 100)"

text \<open>The recency steps on the age in days (specification, 4.1).\<close>

definition recency_steps :: "real \<Rightarrow> real" where
  "recency_steps ageDays =
     (if ageDays \<le> 1 then 100 else if ageDays \<le> 7 then 80 else if ageDays \<le> 30 then 60
      else if ageDays \<le> 90 then 40 else 20)"

text \<open>The popularity formula of the specification, over the reals.\<close>

definition popularity_formula :: "real \<Rightarrow> real \<Rightarrow> real" where
  "popularity_formula raw ageDays = min ((raw / (1 + ageDays * 0.1)) / 10) 100"

text \<open>Case-insensitive comparison, by the codes of the letters and without the engine's
  \<^verbatim>\<open>toLowerCase\<close>: two code units are the same letter when they are equal, or when one is
  an upper-case letter and the other one the lower-case letter 32 above it.\<close>

definition upper_code :: "nat \<Rightarrow> bool" where
  "upper_code n = (65 \<le> n \<and> n \<le> 90 \<or> 192 \<le> n \<and> n \<le> 214 \<or> 216 \<le> n \<and> n \<le> 222)"

definition same_letter :: "char \<Rightarrow> char \<Rightarrow> bool" where
  "same_letter a b =
     (let m = (of_char a :: nat); n = of_char b
      in m = n \<or> upper_code m \<and> n = m + 32 \<or> upper_code n \<and> m = n + 32)"

definition equal_ci :: "string \<Rightarrow> string \<Rightarrow> bool" where
  "equal_ci s t = list_all2 same_letter s t"

text \<open>\<open>s\<close> contains \<open>t\<close>, case-insensitively: a piece of \<open>s\<close> differs from \<open>t\<close> in the case of
  its letters at most.\<close>

definition contains_ci :: "string \<Rightarrow> string \<Rightarrow> bool" where
  "contains_ci s t = (\<exists>p m q. s = p @ m @ q \<and> equal_ci m t)"

text \<open>A tag matches an interest if either string is a case-insensitive substring of the
  other (specification, 4.1).\<close>

definition matches_ci :: "string \<Rightarrow> string \<Rightarrow> bool" where
  "matches_ci a b = (contains_ci a b \<or> contains_ci b a)"

text \<open>A field without text: missing, or the empty string.\<close>

definition no_text :: "string option \<Rightarrow> bool" where
  "no_text f = (f = None \<or> f = Some [])"

text \<open>The six location rules in their order of precedence.\<close>

definition locationMatch_rules :: "location_data \<Rightarrow> string \<Rightarrow> real" where
  "locationMatch_rules u loc =
     (if no_text (country u) \<and> no_text (province u) \<and> no_text (city u) then 50
      else if contains_ci loc ''remote'' \<or> contains_ci loc ''virtual'' \<or> contains_ci loc ''online''
      then 100
      else if (\<exists>c. city u = Some c \<and> c \<noteq> [] \<and> contains_ci loc c) then 100
      else if (\<exists>p. province u = Some p \<and> p \<noteq> [] \<and> contains_ci loc p) then 80
      else if (\<exists>c. country u = Some c \<and> c \<noteq> [] \<and> contains_ci loc c) then 60
      else 20)"

text \<open>The active items of a content type: the documents with the status "active" of the
  collections of that type (of all four for "all"), opportunities first, then events,
  jobs and resources, each document annotated with its type.\<close>

definition active_items :: "database \<Rightarrow> string \<Rightarrow> item list" where
  "active_items db contentType =
     (if contentType = ''all'' \<or> contentType = ''opportunity''
      then map (\<lambda>d. d\<lparr>ctype := Some ''opportunity''\<rparr>)
               (filter (\<lambda>d. status d = ''active'') (opportunities db))
      else []) @
     (if contentType = ''all'' \<or> contentType = ''event''
      then map (\<lambda>d. d\<lparr>ctype := Some ''event''\<rparr>)
               (filter (\<lambda>d. status d = ''active'') (events db))
      else []) @
     (if contentType = ''all'' \<or> contentType = ''job''
      then map (\<lambda>d. d\<lparr>ctype := Some ''job''\<rparr>)
               (filter (\<lambda>d. status d = ''active'') (jobs db))
      else []) @
     (if contentType = ''all'' \<or> contentType = ''resource''
      then map (\<lambda>d. d\<lparr>ctype := Some ''resource''\<rparr>)
               (filter (\<lambda>d. status d = ''active'') (resources db))
      else [])"

text \<open>A failure of the store during a ranking request: no connection, a rejected lookup
  of the profile or of the preferences, or a rejected read of a collection the request
  needs.\<close>

definition content_collections :: "(string \<times> collection) list" where
  "content_collections =
     [(''opportunity'', Opportunities), (''event'', Events), (''job'', Jobs),
      (''resource'', Resources)]"

definition store_fails :: "database \<Rightarrow> string \<Rightarrow> bool" where
  "store_fails db contentType =
     (\<not> connected db \<or> FindOne UserProfiles \<in> failing db \<or>
      FindOne UserPreferences \<in> failing db \<or>
      list_ex (\<lambda>(name, c). (contentType = ''all'' \<or> contentType = name) \<and> Find c \<in> failing db)
        content_collections)"

text \<open>The weight an object holds for a key: the number under the key, 0 when there is
  none. A key is ordinary for an object when \<^verbatim>\<open>Object.prototype\<close> has no member of that
  name and the object holds no string under it.\<close>

definition weight_at :: "(string \<rightharpoonup> js_value) \<Rightarrow> string \<Rightarrow> real" where
  "weight_at m k = (case m k of Some (Num a) \<Rightarrow> a | _ \<Rightarrow> 0)"

definition ordinary_key :: "(string \<rightharpoonup> js_value) \<Rightarrow> string \<Rightarrow> bool" where
  "ordinary_key m k = (k \<notin> fst ` set object_prototype \<and> (\<forall>s. m k \<noteq> Some (Str s)))"

text \<open>The weight a user's preferences document holds for a tag and for a requirement.\<close>

definition interest_weight :: "database \<Rightarrow> string \<Rightarrow> string \<Rightarrow> real" where
  "interest_weight db userId t =
     (case user_preferences db userId of
        None \<Rightarrow> 0
      | Some p \<Rightarrow> weight_at (or_object (pref_interests p)) t)"

definition skill_weight :: "database \<Rightarrow> string \<Rightarrow> string \<Rightarrow> real" where
  "skill_weight db userId r =
     (case user_preferences db userId of
        None \<Rightarrow> 0
      | Some p \<Rightarrow> weight_at (or_object (pref_skills p)) r)"

text \<open>The store after one engagement event has been learned with the increment \<open>i\<close>, with
  or without the skills.\<close>

definition learned :: "int \<Rightarrow> database \<Rightarrow> string \<Rightarrow> increment \<Rightarrow> bool \<Rightarrow> item \<Rightarrow> database" where
  "learned now db userId i with_skills itemData =
     (case user_preferences db userId of
        None \<Rightarrow> db
      | Some p \<Rightarrow>
          db\<lparr>user_preferences := (user_preferences db)(userId \<mapsto>
               p\<lparr>pref_interests :=
                    Some (fold (bump i) (or_nil (tags itemData)) (or_object (pref_interests p))),
                  pref_skills :=
                    (if with_skills
                     then Some (fold (bump i) (or_nil (requirements itemData))
                                     (or_object (pref_skills p)))
                     else pref_skills p),
                  updated_at := now\<rparr>)\<rparr>)"

section \<open>Properties\<close>

subsection \<open>Strings\<close>

lemma startsWith_iff: "startsWith s t \<longleftrightarrow> (\<exists>q. s = t @ q)"
  by (induction s t rule: startsWith.induct) auto

lemma str_includes_iff: "str_includes s t \<longleftrightarrow> (\<exists>p q. s = p @ t @ q)"
proof (induction s)
  case Nil
  then show ?case by auto
next
  case (Cons a s)
  have "(\<exists>p q. a # s = p @ t @ q) \<longleftrightarrow> (\<exists>q. a # s = t @ q) \<or> (\<exists>p q. s = p @ t @ q)"
  proof
    assume "\<exists>p q. a # s = p @ t @ q"
    then obtain p q where pq: "a # s = p @ t @ q" by blast
    show "(\<exists>q. a # s = t @ q) \<or> (\<exists>p q. s = p @ t @ q)"
    proof (cases p)
      case Nil
      with pq show ?thesis by auto
    next
      case (Cons b p')
      with pq have "s = p' @ t @ q" by simp
      then show ?thesis by blast
    qed
  next
    assume "(\<exists>q. a # s = t @ q) \<or> (\<exists>p q. s = p @ t @ q)"
    then show "\<exists>p q. a # s = p @ t @ q"
    proof
      assume "\<exists>q. a # s = t @ q"
      then obtain q where "a # s = [] @ t @ q" by auto
      then show ?thesis by blast
    next
      assume "\<exists>p q. s = p @ t @ q"
      then obtain p q where "a # s = (a # p) @ t @ q" by auto
      then show ?thesis by blast
    qed
  qed
  with Cons show ?case by (simp add: startsWith_iff)
qed

text \<open>The engine's lower-casing identifies exactly the letters that are the same up to
  their case.\<close>

lemma codes_upper: "map of_char upper_letters = [65..<91] @ [192..<215] @ [216..<223 :: nat]"
  by (simp add: upper_letters_def upt_rec)

lemma codes_lower: "map of_char lower_letters = map (\<lambda>n. n + 32) (map of_char upper_letters :: nat list)"
  by (simp add: upper_letters_def lower_letters_def)

lemma letters_distinct: "distinct upper_letters" "distinct lower_letters" "set upper_letters \<inter> set lower_letters = {}"
  by (simp_all add: upper_letters_def lower_letters_def)


lemma upper_letters_iff: "c \<in> set upper_letters \<longleftrightarrow> upper_code (of_char c)"
proof -
  have "c \<in> set upper_letters \<longleftrightarrow> (of_char c :: nat) \<in> set (map of_char upper_letters)"
    by (auto simp: image_iff)
  also have "\<dots> \<longleftrightarrow> upper_code (of_char c)"
  proof -
    have "set (map of_char upper_letters :: nat list) = {65..<91} \<union> {192..<215} \<union> {216..<223}"
      unfolding codes_upper by (simp only: set_append set_upt Un_assoc)
    then show ?thesis
      by (simp add: upper_code_def) arith
  qed
  finally show ?thesis .
qed

lemma lower_char_code:
  "of_char (lower_char c) = (if upper_code (of_char c) then of_char c + 32 else (of_char c :: nat))"
proof (cases "c \<in> set upper_letters")
  case True
  then obtain i where i: "i < length upper_letters" and c: "c = upper_letters ! i"
    by (auto simp: in_set_conv_nth)
  have len: "length upper_letters = length lower_letters"
    by (simp add: upper_letters_def lower_letters_def)
  from i c len have "map_of (zip upper_letters lower_letters) c = Some (lower_letters ! i)"
    by (simp add: map_of_zip_nth letters_distinct(1))
  then have "lower_char c = lower_letters ! i"
    by (simp add: lower_char_def)
  moreover have "(of_char (lower_letters ! i) :: nat) = of_char (upper_letters ! i) + 32"
  proof -
    from i len have "(of_char (lower_letters ! i) :: nat) = map of_char lower_letters ! i"
      by simp
    also from i have "\<dots> = of_char (upper_letters ! i) + 32"
      unfolding codes_lower by simp
    finally show ?thesis .
  qed
  ultimately show ?thesis
    using True c by (simp add: upper_letters_iff)
next
  case False
  have len: "length upper_letters = length lower_letters"
    by (simp add: upper_letters_def lower_letters_def)
  from False len have "map_of (zip upper_letters lower_letters) c = None"
    by (simp add: map_of_zip_is_None)
  with False show ?thesis
    by (simp add: lower_char_def upper_letters_iff)
qed

lemma lower_char_eq_iff: "lower_char a = lower_char b \<longleftrightarrow> same_letter a b"
proof -
  have "lower_char a = lower_char b \<longleftrightarrow>
        (of_char (lower_char a) :: nat) = of_char (lower_char b)"
    by simp
  also have "\<dots> \<longleftrightarrow> same_letter a b"
    unfolding lower_char_code same_letter_def Let_def
    by (auto simp: upper_code_def)
  finally show ?thesis .
qed

lemma toLowerCase_eq_iff: "toLowerCase s = toLowerCase t \<longleftrightarrow> equal_ci s t"
proof -
  have "map lower_char s = map lower_char t \<longleftrightarrow>
        list_all2 (\<lambda>a b. lower_char a = lower_char b) s t"
    by (auto simp: list_all2_conv_all_nth list_eq_iff_nth_eq)
  then show ?thesis
    by (simp add: toLowerCase_def equal_ci_def lower_char_eq_iff)
qed

lemma includes_lower_iff:
  "str_includes (toLowerCase s) (toLowerCase t) \<longleftrightarrow> contains_ci s t"
proof
  assume "str_includes (toLowerCase s) (toLowerCase t)"
  then obtain p q where "map lower_char s = p @ map lower_char t @ q"
    unfolding str_includes_iff toLowerCase_def by blast
  then obtain p' r where s: "s = p' @ r" and r: "map lower_char r = map lower_char t @ q"
    by (metis map_eq_append_conv)
  from r obtain m q' where "r = m @ q'" and "map lower_char m = map lower_char t"
    by (metis map_eq_append_conv)
  with s show "contains_ci s t"
    unfolding contains_ci_def toLowerCase_eq_iff [symmetric] toLowerCase_def by blast
next
  assume "contains_ci s t"
  then obtain p m q where "s = p @ m @ q" and "toLowerCase m = toLowerCase t"
    unfolding contains_ci_def toLowerCase_eq_iff by blast
  then have "toLowerCase s = toLowerCase p @ toLowerCase t @ toLowerCase q"
    by (simp add: toLowerCase_def)
  then show "str_includes (toLowerCase s) (toLowerCase t)"
    unfolding str_includes_iff by blast
qed

lemma either_includes_iff: "either_includes a b \<longleftrightarrow> matches_ci a b"
  by (simp add: either_includes_def matches_ci_def includes_lower_iff)

lemma lower_keywords:
  "toLowerCase ''remote'' = ''remote''" "toLowerCase ''virtual'' = ''virtual''"
  "toLowerCase ''online'' = ''online''"
  by code_simp+

lemma includes_keyword:
  "str_includes (toLowerCase s) ''remote'' \<longleftrightarrow> contains_ci s ''remote''"
  "str_includes (toLowerCase s) ''virtual'' \<longleftrightarrow> contains_ci s ''virtual''"
  "str_includes (toLowerCase s) ''online'' \<longleftrightarrow> contains_ci s ''online''"
  using includes_lower_iff [of s "''remote''"] includes_lower_iff [of s "''virtual''"]
    includes_lower_iff [of s "''online''"]
  by (simp_all only: lower_keywords)

lemma field_match:
  "truthy f \<and> str_includes (toLowerCase loc) (toLowerCase (or_empty f)) \<longleftrightarrow>
   (\<exists>c. f = Some c \<and> c \<noteq> [] \<and> contains_ci loc c)"
  by (cases f) (auto simp: includes_lower_iff)

lemma truthy_iff: "truthy f \<longleftrightarrow> \<not> no_text f"
  by (cases f) (simp_all add: no_text_def)

subsection \<open>Location match\<close>

lemma calculateLocationMatch_rules:
  "calculateLocationMatch d p q =
     Fin (locationMatch_rules (userLocation p q) (or_empty (location d)))"
  unfolding calculateLocationMatch_def locationMatch_rules_def Let_def
    includes_keyword field_match
  unfolding truthy_iff
  by (simp only: not_not if_distrib [of Fin] if_cancel)

text \<open>
  Claim C8. For every item and user, \<^verbatim>\<open>calculateLocationMatch\<close> is decided by the six rules
  in strict precedence, the first applicable rule winning: no location data of the user
  gives 50; an item location that contains "remote", "virtual" or "online",
  case-insensitively, gives 100; else a non-empty city of the user contained in the item
  location gives 100; else the province gives 80; else the country gives 60; otherwise 20.
  All containments are case-insensitive. The location data of the user is the
  \<^verbatim>\<open>location_data\<close> object of the profile when the profile has one, else the one of the
  preferences document, else none; a missing item location is the empty text.

  The examples of the specification: an item at "Remote - Canada" scores 100 for a user
  of city "Toronto", by the remote rule, since the location does not contain the city;
  "Toronto, Ontario" scores 100 for the city "Toronto"; 80 with only the province and 60
  with only the country matching; 50 for a user without location data; 20 for a location
  that matches nothing. Further, the city of a preferences document is read when the
  profile has no location data, capitals and accented capitals match their small
  letters, and a profile whose \<^verbatim>\<open>location_data\<close> is an object without fields is location
  data without a field: it scores 50 whatever the preferences hold.
\<close>

theorem calculateLocationMatch_precedence:
  "calculateLocationMatch it userProfile userPreferences =
     Fin (locationMatch_rules
            (case Option.bind userProfile profile_location_data of
               Some l \<Rightarrow> l
             | None \<Rightarrow>
                 (case Option.bind userPreferences pref_location_data of
                    Some l \<Rightarrow> l
                  | None \<Rightarrow> \<lparr>country = None, province = None, city = None\<rparr>))
            (case location it of None \<Rightarrow> [] | Some l \<Rightarrow> l)) \<and>
   calculateLocationMatch (item_at ''Remote - Canada'')
     (Some (profile_at (city_only ''Toronto''))) None = Fin 100 \<and>
   contains_ci ''Remote - Canada'' ''remote'' \<and> \<not> contains_ci ''Remote - Canada'' ''Toronto'' \<and>
   calculateLocationMatch (item_at ''Toronto, Ontario'')
     (Some (profile_at (city_only ''Toronto''))) None = Fin 100 \<and>
   calculateLocationMatch (item_at ''Ottawa, Ontario'') (Some (profile_at in_toronto)) None = Fin 80 \<and>
   calculateLocationMatch (item_at ''Vancouver, Canada'') (Some (profile_at in_toronto)) None = Fin 60 \<and>
   calculateLocationMatch (item_at ''Toronto, Ontario'') (Some profile_blank) None = Fin 50 \<and>
   calculateLocationMatch (item_at ''Lagos'') (Some (profile_at in_toronto)) None = Fin 20 \<and>
   calculateLocationMatch (item_at ''TORONTO, ON'') (Some profile_blank)
     (Some (preferences_at (city_only ''Toronto''))) = Fin 100 \<and>
   calculateLocationMatch (item_at (''MONTR'' @ [CHR 0xC9] @ ''AL, QC'')) None
     (Some (preferences_at (city_only (''Montr'' @ [CHR 0xE9] @ ''al'')))) = Fin 100 \<and>
   calculateLocationMatch (item_at ''Toronto, Ontario'') (Some (profile_at nowhere))
     (Some (preferences_at (city_only ''Toronto''))) = Fin 50"
proof -
  have sel: "userLocation p q =
      (case Option.bind p profile_location_data of
         Some l \<Rightarrow> l
       | None \<Rightarrow>
           (case Option.bind q pref_location_data of
              Some l \<Rightarrow> l
            | None \<Rightarrow> \<lparr>country = None, province = None, city = None\<rparr>))" for p q
    by (simp add: userLocation_def)
  have loc: "or_empty f = (case f of None \<Rightarrow> [] | Some l \<Rightarrow> l)" for f
    by (cases f) simp_all
  have rules: "calculateLocationMatch it userProfile userPreferences =
     Fin (locationMatch_rules
            (case Option.bind userProfile profile_location_data of
               Some l \<Rightarrow> l
             | None \<Rightarrow>
                 (case Option.bind userPreferences pref_location_data of
                    Some l \<Rightarrow> l
                  | None \<Rightarrow> \<lparr>country = None, province = None, city = None\<rparr>))
            (case location it of None \<Rightarrow> [] | Some l \<Rightarrow> l))"
    unfolding calculateLocationMatch_rules sel loc ..
  have remote: "contains_ci ''Remote - Canada'' ''remote''"
    unfolding includes_lower_iff [symmetric] by code_simp
  have city: "\<not> contains_ci ''Remote - Canada'' ''Toronto''"
    unfolding includes_lower_iff [symmetric] by code_simp
  have e1: "calculateLocationMatch (item_at ''Remote - Canada'')
      (Some (profile_at (city_only ''Toronto''))) None = Fin 100"
    by code_simp
  have e2: "calculateLocationMatch (item_at ''Toronto, Ontario'')
      (Some (profile_at (city_only ''Toronto''))) None = Fin 100"
    by code_simp
  have e3: "calculateLocationMatch (item_at ''Ottawa, Ontario'') (Some (profile_at in_toronto)) None =
      Fin 80"
    by code_simp
  have e4: "calculateLocationMatch (item_at ''Vancouver, Canada'') (Some (profile_at in_toronto))
      None = Fin 60"
    by code_simp
  have e5: "calculateLocationMatch (item_at ''Toronto, Ontario'') (Some profile_blank) None = Fin 50"
    by code_simp
  have e6: "calculateLocationMatch (item_at ''Lagos'') (Some (profile_at in_toronto)) None = Fin 20"
    by code_simp
  have e7: "calculateLocationMatch (item_at ''TORONTO, ON'') (Some profile_blank)
      (Some (preferences_at (city_only ''Toronto''))) = Fin 100"
    by code_simp
  have e8: "calculateLocationMatch (item_at (''MONTR'' @ [CHR 0xC9] @ ''AL, QC'')) None
      (Some (preferences_at (city_only (''Montr'' @ [CHR 0xE9] @ ''al'')))) = Fin 100"
    by code_simp
  have e9: "calculateLocationMatch (item_at ''Toronto, Ontario'') (Some (profile_at nowhere))
      (Some (preferences_at (city_only ''Toronto''))) = Fin 50"
    by code_simp
  from rules e1 remote city e2 e3 e4 e5 e6 e7 e8 e9 show ?thesis
    by (intro conjI)
qed

subsection \<open>Popularity\<close>

text \<open>
  Claim C9. For every item the popularity sub-score is
  \<open>min (((likes_count + saves_count + views) / (1 + ageDays * 0.1)) / 10) 100\<close>, where
  \<open>ageDays\<close> is \<open>(now - created_at)\<close> over one day and a missing counter counts as 0. The
  formula is read over the reals wherever its divisor is not 0. The divisor is 0 only
  for an item dated exactly ten days ahead of the clock; there the JavaScript division
  gives Infinity (capped to 100) for a positive count and NaN for the count 0.
\<close>

theorem calculateDecayedPopularity_formula:
  "calculateDecayedPopularity now it =
     (let raw = real ((case likes_count it of None \<Rightarrow> 0 | Some n \<Rightarrow> n) +
                      (case saves_count it of None \<Rightarrow> 0 | Some n \<Rightarrow> n) +
                      (case views it of None \<Rightarrow> 0 | Some n \<Rightarrow> n));
          ageDays = real_of_int (now - created_at it) / 86400000
      in if 1 + ageDays * 0.1 \<noteq> 0 then Fin (popularity_formula raw ageDays)
         else if raw = 0 then NaN else Fin 100)"
proof -
  have raw: "rawPopularity it =
      (case likes_count it of None \<Rightarrow> 0 | Some n \<Rightarrow> n) +
      (case saves_count it of None \<Rightarrow> 0 | Some n \<Rightarrow> n) +
      (case views it of None \<Rightarrow> 0 | Some n \<Rightarrow> n)"
    by (simp add: rawPopularity_def split: option.splits)
  have age: "ageInDays now it = real_of_int (now - created_at it) / 86400000"
    by (simp add: ageInDays_def)
  show ?thesis
    unfolding calculateDecayedPopularity_def raw age decayRate_def popularity_formula_def Let_def
    by simp
qed

subsection \<open>Recency\<close>

text \<open>
  Claim C10. For every item the recency sub-score is the step function of the age in
  days: at most 1 gives 100, at most 7 gives 80, at most 30 gives 60, at most 90 gives
  40, anything older 20. An age of exactly 1, 7, 30 or 90 days falls into the higher
  bucket; one millisecond past 90 days gives 20.
\<close>

theorem calculateRecency_steps:
  "calculateRecency now it = Fin (recency_steps (ageInDays now it)) \<and>
   ageInDays now it = real_of_int (now - created_at it) / 86400000 \<and>
   calculateRecency (created_at it + 86400000) it = Fin 100 \<and>
   calculateRecency (created_at it + 7 * 86400000) it = Fin 80 \<and>
   calculateRecency (created_at it + 30 * 86400000) it = Fin 60 \<and>
   calculateRecency (created_at it + 90 * 86400000) it = Fin 40 \<and>
   calculateRecency (created_at it + 90 * 86400000 + 1) it = Fin 20"
proof -
  have steps: "calculateRecency n it = Fin (recency_steps (ageInDays n it))" for n
    by (simp add: calculateRecency_def recency_steps_def)
  have age: "ageInDays n it = real_of_int (n - created_at it) / 86400000" for n
    by (simp add: ageInDays_def)
  show ?thesis
    unfolding steps unfolding age recency_steps_def by simp
qed

subsection \<open>Interest and skill match\<close>

text \<open>Five of the six sub-scores lie between 0 and 100: the skill match whenever the
  matcher returns, the location match and the recency always, the explore factor for a
  draw in \<open>[0, 1)\<close>, and the popularity of an item that is not dated ahead of the clock.\<close>

lemma filter_e_Inr: "filter_e (\<lambda>x. Inr (P x)) xs = Inr (filter P xs)"
  by (induction xs) simp_all

lemma ratio_bounded:
  assumes "m \<le> n" "n \<noteq> 0"
  shows "in_0_100 (js_mul (js_div (Fin (real m)) (Fin (real n))) (Fin 100))"
proof -
  from assms have n: "0 < real n" by simp
  from assms have "real m * 100 \<le> 100 * real n" by simp
  with n have "real m / real n * 100 \<le> 100"
    by (simp add: pos_divide_le_eq)
  moreover have "0 \<le> real m / real n * 100" by simp
  ultimately show ?thesis using assms(2) by (simp add: in_0_100_def)
qed

lemma calculateSkillMatch_bounded:
  assumes "calculateSkillMatch it p q = Inr x"
  shows "in_0_100 x"
proof (cases "userSkills p q")
  case (JArray us)
  show ?thesis
  proof (cases "us = [] \<or> or_nil (requirements it) = []")
    case True
    with assms JArray have "x = Fin 0"
      by (auto simp: calculateSkillMatch_def)
    then show ?thesis by (simp add: in_0_100_def)
  next
    case False
    let ?rs = "or_nil (requirements it)"
    let ?m = "filter (\<lambda>req. list_ex (\<lambda>skill. either_includes skill req) us) ?rs"
    from False assms JArray
    have "x = js_mul (js_div (Fin (real (length ?m))) (Fin (real (length ?rs)))) (Fin 100)"
      by (simp add: calculateSkillMatch_def filter_e_Inr Let_def)
    moreover have "length ?m \<le> length ?rs" by simp
    moreover from False have "length ?rs \<noteq> 0" by simp
    ultimately show ?thesis using ratio_bounded by blast
  qed
next
  case (JObject m)
  show ?thesis
  proof (cases "or_nil (requirements it)")
    case Nil
    with assms JObject have "x = Fin 0"
      by (auto simp: calculateSkillMatch_def)
    then show ?thesis by (simp add: in_0_100_def)
  next
    case (Cons r rs)
    with assms JObject have "x = Fin 0"
      by (auto simp: calculateSkillMatch_def Let_def split: if_splits)
    then show ?thesis by (simp add: in_0_100_def)
  qed
qed

lemma calculateLocationMatch_bounded: "in_0_100 (calculateLocationMatch it p q)"
  by (simp add: calculateLocationMatch_def in_0_100_def Let_def)

lemma calculateRecency_bounded: "in_0_100 (calculateRecency now it)"
  by (simp add: calculateRecency_def in_0_100_def)

lemma calculateExploreFactor_bounded:
  "0 \<le> rnd \<Longrightarrow> rnd < 1 \<Longrightarrow> in_0_100 (calculateExploreFactor rnd it)"
  by (simp add: calculateExploreFactor_def in_0_100_def)

lemma calculateDecayedPopularity_bounded:
  assumes "created_at it \<le> now"
  shows "in_0_100 (calculateDecayedPopularity now it)"
proof -
  from assms have age: "0 \<le> ageInDays now it"
    by (simp add: ageInDays_def)
  then have pos: "0 < 1 + ageInDays now it * decayRate"
    by (simp add: decayRate_def add_pos_nonneg)
  then have "0 \<le> real (rawPopularity it) / (1 + ageInDays now it * decayRate) / 10"
    by simp
  with pos show ?thesis
    by (simp add: calculateDecayedPopularity_def in_0_100_def Let_def)
qed

text \<open>With lists as the sources of both matchers (the lists of a profile, or no source
  at all) the Scorer returns; without any document the three personal sub-scores are 0.\<close>

lemma calculateInterestMatch_of_lists:
  assumes "userInterests p q = JArray us"
  shows "calculateInterestMatch it p q =
     Inr (if us = [] \<or> or_nil (tags it) = [] then Fin 0
          else Fin (real (length (filter (\<lambda>tag. list_ex (\<lambda>interest. either_includes interest tag) us)
                                   (or_nil (tags it)))) / real (length us) * 100))"
  using assms by (simp add: calculateInterestMatch_def filter_e_Inr Let_def)

lemma calculateSkillMatch_of_lists:
  assumes "userSkills p q = JArray us"
  shows "calculateSkillMatch it p q =
     Inr (if us = [] \<or> or_nil (requirements it) = [] then Fin 0
          else Fin (real (length (filter (\<lambda>req. list_ex (\<lambda>skill. either_includes skill req) us)
                                   (or_nil (requirements it)))) /
                    real (length (or_nil (requirements it))) * 100))"
  using assms by (simp add: calculateSkillMatch_def filter_e_Inr Let_def)

lemma calculateScore_total_on_lists:
  assumes "userInterests p q = JArray us" "userSkills p q = JArray ss"
  shows "\<exists>c. calculateScore now rnd it p q = Inr c"
  by (simp add: calculateScore_def calculateInterestMatch_of_lists [OF assms(1)]
      calculateSkillMatch_of_lists [OF assms(2)] Let_def)

lemma calculateScore_without_documents:
  "calculateScore now rnd it None None =
     Inr \<lparr>content = it,
          score = Some (totalScore \<lparr>interestMatch = Fin 0, skillMatch = Fin 0, locationMatch = Fin 0,
                     popularity = calculateDecayedPopularity now it,
                     recency = calculateRecency now it,
                     explore = calculateExploreFactor rnd it\<rparr>),
          scoreBreakdown = Some \<lparr>interestMatch = Fin 0, skillMatch = Fin 0, locationMatch = Fin 0,
                     popularity = calculateDecayedPopularity now it,
                     recency = calculateRecency now it,
                     explore = calculateExploreFactor rnd it\<rparr>\<rparr>"
  by (simp add: calculateScore_def Let_def)

text \<open>
  Claim C1, evaluated where it fails. The claim bounds every sub-score and the combined
  score by 100. For a profile with the one interest "tech" and an item with the three
  tags "tech", "technology" and "fintech", \<^verbatim>\<open>calculateInterestMatch\<close> counts the three
  matching tags and divides by the one interest: the sub-score is 300 and the combined
  score 132.65.
\<close>

theorem interest_match_exceeds_100:
  "calculateInterestMatch job_b (Some profile_tech) None = Inr (Fin 300) \<and>
   calculateScore 0 0 job_b (Some profile_tech) None =
     Inr \<lparr>content = job_b, score = Some (Fin 132.65),
          scoreBreakdown =
            Some \<lparr>interestMatch = Fin 300, skillMatch = Fin 0, locationMatch = Fin 50,
                  popularity = Fin 1, recency = Fin 100, explore = Fin 0\<rparr>\<rparr>"
proof -
  have i: "calculateInterestMatch job_b (Some profile_tech) None = Inr (Fin 300)"
    by code_simp
  have s: "calculateSkillMatch job_b (Some profile_tech) None = Inr (Fin 0)"
    by (simp add: calculateSkillMatch_def job_b_def)
  have l: "calculateLocationMatch job_b (Some profile_tech) None = Fin 50"
    by (simp add: calculateLocationMatch_def userLocation_def profile_tech_def)
  have p: "calculateDecayedPopularity 0 job_b = Fin 1"
    by (simp add: calculateDecayedPopularity_def ageInDays_def rawPopularity_def decayRate_def
        job_b_def)
  have r: "calculateRecency 0 job_b = Fin 100"
    by (simp add: calculateRecency_def ageInDays_def job_b_def)
  show ?thesis
    by (simp add: calculateScore_def i s l p r calculateExploreFactor_def totalScore_def)
qed

theorem interest_match_exceeds_100_witness:
  "calculateInterestMatch job_b (Some profile_tech) None = Inr (Fin 300) \<and>
   \<not> in_0_100 (Fin 300) \<and>
   map_sum id score (calculateScore 0 0 job_b (Some profile_tech) None) =
     Inr (Some (Fin 132.65)) \<and>
   \<not> in_0_100 (Fin 132.65)"
proof -
  have out: "\<not> in_0_100 (Fin 300)" "\<not> in_0_100 (Fin 132.65)"
    by (simp_all add: in_0_100_def)
  from interest_match_exceeds_100
  have "calculateInterestMatch job_b (Some profile_tech) None = Inr (Fin 300)"
    and "map_sum id score (calculateScore 0 0 job_b (Some profile_tech) None) =
           Inr (Some (Fin 132.65))"
    by simp_all
  with out show ?thesis by blast
qed

text \<open>The weights that \<^verbatim>\<open>updatePreferencesFromEngagement\<close> stores are an object, and an
  object makes both matchers throw as soon as the item has a tag or a requirement.\<close>

lemma interest_match_of_object:
  assumes "Option.bind userProfile profile_interests = None"
    and "pref_interests q = Some m"
  shows "calculateInterestMatch it userProfile (Some q) =
     (if m ''length'' = Some (Num 0) \<or> or_nil (tags it) = [] then Inr (Fin 0)
      else Inl TypeError)"
proof (cases "or_nil (tags it)")
  case Nil
  then show ?thesis by (simp add: calculateInterestMatch_def)
next
  case (Cons t ts)
  with assms show ?thesis by (simp add: calculateInterestMatch_def userInterests_def)
qed

lemma skill_match_of_object:
  assumes "Option.bind userProfile profile_skills = None"
    and "pref_skills q = Some m"
  shows "calculateSkillMatch it userProfile (Some q) =
     (if m ''length'' = Some (Num 0) \<or> or_nil (requirements it) = [] then Inr (Fin 0)
      else Inl TypeError)"
proof (cases "or_nil (requirements it)")
  case Nil
  then show ?thesis by (simp add: calculateSkillMatch_def)
next
  case (Cons t ts)
  with assms show ?thesis by (simp add: calculateSkillMatch_def userSkills_def Let_def)
qed

lemma or_nil_case: "or_nil f = (case f of None \<Rightarrow> [] | Some xs \<Rightarrow> xs)"
  by (cases f) simp_all

lemma learn_like:
  assumes "connected db" "FindOne UserPreferences \<notin> failing db"
    "UpdateOne UserPreferences \<notin> failing db" "user_preferences db userId = Some p"
    "e = ''save'' \<or> e = ''like''"
  shows "updatePreferencesFromEngagement now db userId e itemData =
           Inr (learned now db userId One True itemData, [])"
  using assms
  by (auto simp: updatePreferencesFromEngagement_def learn_body_def getDB_def
      findOne_preferences_def updateOne_preferences_def bind_e_def catch_e_def learned_def Let_def)

lemma learn_click:
  assumes "connected db" "FindOne UserPreferences \<notin> failing db"
    "UpdateOne UserPreferences \<notin> failing db" "user_preferences db userId = Some p"
  shows "updatePreferencesFromEngagement now db userId ''click_through'' itemData =
           Inr (learned now db userId Half False itemData, [])"
  using assms
  by (simp add: updatePreferencesFromEngagement_def learn_body_def getDB_def
      findOne_preferences_def updateOne_preferences_def bind_e_def catch_e_def learned_def Let_def)

lemma active_jobs_store0:
  "getActiveContent (store0\<lparr>user_preferences := u\<rparr>) ''job'' =
     Inr [job_a\<lparr>ctype := Some ''job''\<rparr>, job_b\<lparr>ctype := Some ''job''\<rparr>]"
  by (simp add: getActiveContent_def getDB_def active_of_def find_active_def bind_e_def store0_def
      job_a_def job_b_def job_c_def)

text \<open>
  Claim C2, evaluated where it fails. The claim says that the Scorer never fails, also
  for a user with a preferences document and no profile. For such a user, and an item
  with the tag "tech", \<^verbatim>\<open>calculateScore\<close> is rejected with a TypeError. The engine
  reaches that state by itself: user \<open>u4\<close> has an empty preferences document and no
  profile, one like of the item stores the weight object, and from then on the ranking
  request of \<open>u4\<close> ends in the catch block with the empty list.
\<close>

theorem scorer_raises_on_learned_preferences:
  "calculateScore now rnd job_a None (Some preferences_learned) = Inl TypeError \<and>
   (\<exists>db1 p1.
      updatePreferencesFromEngagement 1 store0 ''u4'' ''like'' job_a = Inr (db1, []) \<and>
      user_profiles db1 ''u4'' = None \<and> user_preferences db1 ''u4'' = Some p1 \<and>
      calculateScore now rnd job_a None (Some p1) = Inl TypeError \<and>
      getRecommendations now rand db1 ''u4'' ''job'' 20 = Inr ([], [''Recommendation error:'']))"
proof -
  have a: "calculateScore now rnd job_a None (Some preferences_learned) = Inl TypeError"
    by (simp add: calculateScore_def
        interest_match_of_object [where m = "[''art'' \<mapsto> Num 3]"]
        preferences_learned_def job_a_def)
  let ?db1 = "learned 1 store0 ''u4'' One True job_a"
  let ?p1 = "preferences_new\<lparr>pref_interests := Some [''tech'' \<mapsto> Num 1],
                pref_skills := Some [''python'' \<mapsto> Num 1], updated_at := 1\<rparr>"
  have like: "updatePreferencesFromEngagement 1 store0 ''u4'' ''like'' job_a = Inr (?db1, [])"
    by (rule learn_like [where p = preferences_new]) (simp_all add: store0_def)
  have db1: "?db1 = store0\<lparr>user_preferences := (user_preferences store0)(''u4'' \<mapsto> ?p1)\<rparr>"
    by (simp add: learned_def store0_def job_a_def preferences_new_def bump_def get_member_def
        set_member_def object_prototype_def)
  have nop: "user_profiles ?db1 ''u4'' = None"
    unfolding db1 by (simp add: store0_def)
  have p1: "user_preferences ?db1 ''u4'' = Some ?p1"
    unfolding db1 by simp
  have raise: "calculateInterestMatch (job_a\<lparr>ctype := c\<rparr>) None (Some ?p1) = Inl TypeError" for c
    by (simp add: interest_match_of_object [where m = "[''tech'' \<mapsto> Num 1]"] job_a_def)
  have b: "calculateScore now rnd job_a None (Some ?p1) = Inl TypeError"
    using raise [of "ctype job_a"] by (simp add: calculateScore_def)
  have c: "calculateScore now r (job_a\<lparr>ctype := Some ''job''\<rparr>) None (Some ?p1) = Inl TypeError" for r
    by (simp add: calculateScore_def raise)
  have conn: "getDB ?db1 = Inr ?db1"
    unfolding db1 by (simp add: getDB_def store0_def)
  have prof: "findOne_profile ?db1 ''u4'' = Inr None"
    unfolding db1 by (simp add: findOne_profile_def store0_def)
  have pref: "findOne_preferences ?db1 ''u4'' = Inr (Some ?p1)"
    unfolding db1 by (simp add: findOne_preferences_def store0_def)
  have items: "getActiveContent ?db1 ''job'' =
      Inr [job_a\<lparr>ctype := Some ''job''\<rparr>, job_b\<lparr>ctype := Some ''job''\<rparr>]"
    unfolding db1 by (rule active_jobs_store0)
  have rec: "getRecommendations now rand ?db1 ''u4'' ''job'' 20 = Inr ([], [''Recommendation error:''])"
    by (simp add: getRecommendations_def recommend_body_def conn prof pref items c bind_e_def
        catch_e_def)
  from a like nop p1 b rec show ?thesis by blast
qed

theorem scorer_raises_on_learned_preferences_witness:
  "calculateScore 0 0 job_a None (Some preferences_learned) = Inl TypeError \<and>
   (\<exists>db1. updatePreferencesFromEngagement 1 store0 ''u4'' ''like'' job_a = Inr (db1, []) \<and>
      getRecommendations 0 (\<lambda>k. 0) db1 ''u4'' ''job'' 20 =
        Inr ([], [''Recommendation error:'']))"
  using scorer_raises_on_learned_preferences [of 0 0 "\<lambda>k. 0"] by blast

text \<open>
  Claim C3, as stated, fails: it has the matchers prefer the preferences document. For
  a user with the profile interests "tech" and skills "sql" and a preferences document
  with weights for "art" and "python", the matchers read the profile's lists: the
  interest match of an item tagged "tech" is 100 and its skill match for the requirement
  "python" is 0, while the preferences alone give neither.
\<close>

theorem matchers_read_the_profile_first:
  "userInterests (Some profile_tech) (Some preferences_learned) = JArray [''tech''] \<and>
   userSkills (Some profile_tech) (Some preferences_learned) = JArray [''sql''] \<and>
   calculateInterestMatch job_a (Some profile_tech) (Some preferences_learned) = Inr (Fin 100) \<and>
   calculateInterestMatch job_a None (Some preferences_learned) = Inl TypeError \<and>
   calculateSkillMatch job_a (Some profile_tech) (Some preferences_learned) = Inr (Fin 0) \<and>
   calculateSkillMatch job_a None (Some preferences_learned) = Inl TypeError"
proof -
  have sources:
    "userInterests (Some profile_tech) (Some preferences_learned) = JArray [''tech'']"
    "userSkills (Some profile_tech) (Some preferences_learned) = JArray [''sql'']"
    by (simp_all add: userInterests_def userSkills_def profile_tech_def)
  have i1: "calculateInterestMatch job_a (Some profile_tech) (Some preferences_learned) =
      Inr (Fin 100)"
    by code_simp
  have i2: "calculateInterestMatch job_a None (Some preferences_learned) = Inl TypeError"
    by code_simp
  have s1: "calculateSkillMatch job_a (Some profile_tech) (Some preferences_learned) =
      Inr (Fin 0)"
    by code_simp
  have s2: "calculateSkillMatch job_a None (Some preferences_learned) = Inl TypeError"
    by code_simp
  from sources i1 i2 s1 s2 show ?thesis by (intro conjI)
qed

text \<open>
  Claim C3, amended. \<^verbatim>\<open>calculateInterestMatch\<close> and \<^verbatim>\<open>calculateSkillMatch\<close> each consult
  one source only, and they prefer the profile. When the profile has interests, the
  interest match is the number of the item's tags that match one of them (either text
  containing the other, case-insensitively), over the number of these interests, times
  100, whatever the preferences document holds. The preferences document is the
  fallback: when there is no profile, or the profile has no interests, the result is
  decided by the weight object of the preferences alone, which is 0 for an item without
  tags (or an object with a key \<^verbatim>\<open>length\<close> of value 0) and the TypeError of claim C2
  otherwise. With neither source the match is 0. The same holds for the skill match,
  with the item's requirements, which also are the divisor.
\<close>

theorem matchers_prefer_profile:
  "(profile_interests prof = Some xs \<longrightarrow>
      calculateInterestMatch it (Some prof) userPreferences =
        Inr (let ts = (case tags it of None \<Rightarrow> [] | Some ts \<Rightarrow> ts)
             in if xs = [] \<or> ts = [] then Fin 0
                else Fin (real (length (filter (\<lambda>tag. list_ex (\<lambda>interest. matches_ci interest tag) xs)
                                         ts)) / real (length xs) * 100))) \<and>
   (Option.bind userProfile profile_interests = None \<and> pref_interests q = Some m \<longrightarrow>
      calculateInterestMatch it userProfile (Some q) =
        (if m ''length'' = Some (Num 0) \<or> tags it = None \<or> tags it = Some [] then Inr (Fin 0)
         else Inl TypeError)) \<and>
   (Option.bind userProfile profile_interests = None \<and>
    Option.bind userPreferences pref_interests = None \<longrightarrow>
      calculateInterestMatch it userProfile userPreferences = Inr (Fin 0)) \<and>
   (profile_skills prof = Some ys \<longrightarrow>
      calculateSkillMatch it (Some prof) userPreferences =
        Inr (let rs = (case requirements it of None \<Rightarrow> [] | Some rs \<Rightarrow> rs)
             in if ys = [] \<or> rs = [] then Fin 0
                else Fin (real (length (filter (\<lambda>req. list_ex (\<lambda>skill. matches_ci skill req) ys)
                                         rs)) / real (length rs) * 100))) \<and>
   (Option.bind userProfile profile_skills = None \<and> pref_skills q = Some n \<longrightarrow>
      calculateSkillMatch it userProfile (Some q) =
        (if n ''length'' = Some (Num 0) \<or> requirements it = None \<or> requirements it = Some []
         then Inr (Fin 0) else Inl TypeError)) \<and>
   (Option.bind userProfile profile_skills = None \<and>
    Option.bind userPreferences pref_skills = None \<longrightarrow>
      calculateSkillMatch it userProfile userPreferences = Inr (Fin 0))"
proof -
  have nil: "or_nil f = [] \<longleftrightarrow> f = None \<or> f = Some []" for f
    by (cases f) simp_all
  have i1: "calculateInterestMatch it (Some prof) userPreferences =
        Inr (let ts = (case tags it of None \<Rightarrow> [] | Some ts \<Rightarrow> ts)
             in if xs = [] \<or> ts = [] then Fin 0
                else Fin (real (length (filter (\<lambda>tag. list_ex (\<lambda>interest. matches_ci interest tag) xs)
                                         ts)) / real (length xs) * 100))"
    if "profile_interests prof = Some xs"
  proof -
    from that have "userInterests (Some prof) userPreferences = JArray xs"
      by (simp add: userInterests_def)
    from calculateInterestMatch_of_lists [OF this] show ?thesis
      by (simp add: either_includes_iff or_nil_case Let_def)
  qed
  have i2: "calculateInterestMatch it userProfile (Some q) =
        (if m ''length'' = Some (Num 0) \<or> tags it = None \<or> tags it = Some [] then Inr (Fin 0)
         else Inl TypeError)"
    if "Option.bind userProfile profile_interests = None" "pref_interests q = Some m"
    using interest_match_of_object [OF that] by (simp add: nil)
  have i3: "calculateInterestMatch it userProfile userPreferences = Inr (Fin 0)"
    if "Option.bind userProfile profile_interests = None"
      "Option.bind userPreferences pref_interests = None"
  proof -
    from that have "userInterests userProfile userPreferences = JArray []"
      by (simp add: userInterests_def)
    from calculateInterestMatch_of_lists [OF this] show ?thesis by simp
  qed
  have s1: "calculateSkillMatch it (Some prof) userPreferences =
        Inr (let rs = (case requirements it of None \<Rightarrow> [] | Some rs \<Rightarrow> rs)
             in if ys = [] \<or> rs = [] then Fin 0
                else Fin (real (length (filter (\<lambda>req. list_ex (\<lambda>skill. matches_ci skill req) ys)
                                         rs)) / real (length rs) * 100))"
    if "profile_skills prof = Some ys"
  proof -
    from that have "userSkills (Some prof) userPreferences = JArray ys"
      by (simp add: userSkills_def)
    from calculateSkillMatch_of_lists [OF this] show ?thesis
      by (simp add: either_includes_iff or_nil_case Let_def)
  qed
  have s2: "calculateSkillMatch it userProfile (Some q) =
        (if n ''length'' = Some (Num 0) \<or> requirements it = None \<or> requirements it = Some []
         then Inr (Fin 0) else Inl TypeError)"
    if "Option.bind userProfile profile_skills = None" "pref_skills q = Some n"
    using skill_match_of_object [OF that] by (simp add: nil)
  have s3: "calculateSkillMatch it userProfile userPreferences = Inr (Fin 0)"
    if "Option.bind userProfile profile_skills = None"
      "Option.bind userPreferences pref_skills = None"
  proof -
    from that have "userSkills userProfile userPreferences = JArray []"
      by (simp add: userSkills_def)
    from calculateSkillMatch_of_lists [OF this] show ?thesis by simp
  qed
  from i1 i2 i3 s1 s2 s3 show ?thesis by blast
qed

theorem matchers_prefer_profile_witness:
  "profile_interests profile_dev = Some [''Tech''] \<and>
   matches_ci ''Tech'' ''tech'' \<and>
   calculateInterestMatch job_a (Some profile_dev) (Some preferences_learned) = Inr (Fin 100) \<and>
   Option.bind (Some profile_blank) profile_interests = None \<and>
   pref_interests preferences_learned = Some [''art'' \<mapsto> Num 3] \<and>
   calculateInterestMatch job_a (Some profile_blank) (Some preferences_learned) = Inl TypeError \<and>
   Option.bind (Some preferences_new) pref_interests = None \<and>
   calculateInterestMatch job_a (Some profile_blank) (Some preferences_new) = Inr (Fin 0) \<and>
   profile_skills profile_dev = Some [''Python 3''] \<and>
   matches_ci ''Python 3'' ''python'' \<and>
   calculateSkillMatch job_a (Some profile_dev) (Some preferences_learned) = Inr (Fin 100) \<and>
   Option.bind (Some profile_blank) profile_skills = None \<and>
   pref_skills preferences_learned = Some [''python'' \<mapsto> Num 2] \<and>
   calculateSkillMatch job_a (Some profile_blank) (Some preferences_learned) = Inl TypeError \<and>
   Option.bind (Some preferences_new) pref_skills = None \<and>
   calculateSkillMatch job_a (Some profile_blank) (Some preferences_new) = Inr (Fin 0)"
proof -
  have h1: "profile_interests profile_dev = Some [''Tech'']" by (simp add: profile_dev_def)
  have h2: "Option.bind (Some profile_blank) profile_interests = None"
    by (simp add: profile_blank_def)
  have h3: "pref_interests preferences_learned = Some [''art'' \<mapsto> Num 3]"
    by (simp add: preferences_learned_def)
  have h4: "Option.bind (Some preferences_new) pref_interests = None"
    by (simp add: preferences_new_def)
  have h5: "profile_skills profile_dev = Some [''Python 3'']" by (simp add: profile_dev_def)
  have h6: "Option.bind (Some profile_blank) profile_skills = None"
    by (simp add: profile_blank_def)
  have h7: "pref_skills preferences_learned = Some [''python'' \<mapsto> Num 2]"
    by (simp add: preferences_learned_def)
  have h8: "Option.bind (Some preferences_new) pref_skills = None"
    by (simp add: preferences_new_def)
  have m1: "matches_ci ''Tech'' ''tech''"
    unfolding either_includes_iff [symmetric] by code_simp
  have m2: "matches_ci ''Python 3'' ''python''"
    unfolding either_includes_iff [symmetric] by code_simp
  have t: "tags job_a = Some [''tech'']" "requirements job_a = Some [''python'']"
    by (simp_all add: job_a_def)
  note learned = matchers_prefer_profile [where prof = profile_dev and xs = "[''Tech'']"
      and ys = "[''Python 3'']" and it = job_a and userProfile = "Some profile_blank"
      and q = preferences_learned and m = "[''art'' \<mapsto> Num 3]" and n = "[''python'' \<mapsto> Num 2]"
      and userPreferences = "Some preferences_learned"]
  note fresh = matchers_prefer_profile [where prof = profile_dev and xs = "[''Tech'']"
      and ys = "[''Python 3'']" and it = job_a and userProfile = "Some profile_blank"
      and q = preferences_learned and m = "[''art'' \<mapsto> Num 3]" and n = "[''python'' \<mapsto> Num 2]"
      and userPreferences = "Some preferences_new"]
  have a: "calculateInterestMatch job_a (Some profile_dev) (Some preferences_learned) = Inr (Fin 100)"
    using learned h1 m1 by (simp add: t)
  have b: "calculateInterestMatch job_a (Some profile_blank) (Some preferences_learned) = Inl TypeError"
    using learned h2 h3 by (simp add: t)
  have c: "calculateInterestMatch job_a (Some profile_blank) (Some preferences_new) = Inr (Fin 0)"
    using fresh h2 h4 by blast
  have d: "calculateSkillMatch job_a (Some profile_dev) (Some preferences_learned) = Inr (Fin 100)"
    using learned h5 m2 by (simp add: t)
  have e: "calculateSkillMatch job_a (Some profile_blank) (Some preferences_learned) = Inl TypeError"
    using learned h6 h7 by (simp add: t)
  have f: "calculateSkillMatch job_a (Some profile_blank) (Some preferences_new) = Inr (Fin 0)"
    using fresh h6 h8 by blast
  from h1 m1 a h2 h3 b h4 c h5 m2 d h6 h7 e h8 f show ?thesis
    by (intro conjI)
qed

subsection \<open>Ranking\<close>

lemma score_job_a:
  "calculateScore 0 0 (job_a\<lparr>ctype := Some ''job''\<rparr>) (Some profile_tech) None =
     Inr \<lparr>content = job_a\<lparr>ctype := Some ''job''\<rparr>, score = Some (Fin 52.545),
          scoreBreakdown =
            Some \<lparr>interestMatch = Fin 100, skillMatch = Fin 0, locationMatch = Fin 50,
                  popularity = Fin 0.3, recency = Fin 100, explore = Fin 0\<rparr>\<rparr>"
proof -
  let ?it = "job_a\<lparr>ctype := Some ''job''\<rparr>"
  have i: "calculateInterestMatch ?it (Some profile_tech) None = Inr (Fin 100)"
    by code_simp
  have s: "calculateSkillMatch ?it (Some profile_tech) None = Inr (Fin 0)"
    by code_simp
  have l: "calculateLocationMatch ?it (Some profile_tech) None = Fin 50"
    by (simp add: calculateLocationMatch_def userLocation_def profile_tech_def)
  have p: "calculateDecayedPopularity 0 ?it = Fin 0.3"
    by (simp add: calculateDecayedPopularity_def ageInDays_def rawPopularity_def decayRate_def
        job_a_def)
  have r: "calculateRecency 0 ?it = Fin 100"
    by (simp add: calculateRecency_def ageInDays_def job_a_def)
  show ?thesis
    by (simp add: calculateScore_def i s l p r calculateExploreFactor_def totalScore_def)
qed

lemma score_job_b:
  "calculateScore 0 0 (job_b\<lparr>ctype := Some ''job''\<rparr>) (Some profile_tech) None =
     Inr \<lparr>content = job_b\<lparr>ctype := Some ''job''\<rparr>, score = Some (Fin 132.65),
          scoreBreakdown =
            Some \<lparr>interestMatch = Fin 300, skillMatch = Fin 0, locationMatch = Fin 50,
                  popularity = Fin 1, recency = Fin 100, explore = Fin 0\<rparr>\<rparr>"
proof -
  let ?it = "job_b\<lparr>ctype := Some ''job''\<rparr>"
  have i: "calculateInterestMatch ?it (Some profile_tech) None = Inr (Fin 300)"
    by code_simp
  have s: "calculateSkillMatch ?it (Some profile_tech) None = Inr (Fin 0)"
    by (simp add: calculateSkillMatch_def job_b_def)
  have l: "calculateLocationMatch ?it (Some profile_tech) None = Fin 50"
    by (simp add: calculateLocationMatch_def userLocation_def profile_tech_def)
  have p: "calculateDecayedPopularity 0 ?it = Fin 1"
    by (simp add: calculateDecayedPopularity_def ageInDays_def rawPopularity_def decayRate_def
        job_b_def)
  have r: "calculateRecency 0 ?it = Fin 100"
    by (simp add: calculateRecency_def ageInDays_def job_b_def)
  show ?thesis
    by (simp add: calculateScore_def i s l p r calculateExploreFactor_def totalScore_def)
qed

text \<open>
  Claim C4, evaluated where it fails. The claim says that no returned object contains
  the internal \<^verbatim>\<open>score\<close> or \<^verbatim>\<open>scoreBreakdown\<close>. User \<open>u2\<close> has a profile; the one
  object that \<^verbatim>\<open>getRecommendations\<close> returns for the limit 1 has its \<^verbatim>\<open>score\<close> set to
  \<^verbatim>\<open>undefined\<close> and still carries the \<^verbatim>\<open>scoreBreakdown\<close> that \<^verbatim>\<open>calculateScore\<close> attached.
\<close>

theorem personalized_results_keep_scoreBreakdown:
  "getRecommendations 0 (\<lambda>k. 0) store0 ''u2'' ''job'' 1 =
     Inr ([\<lparr>content = job_b\<lparr>ctype := Some ''job''\<rparr>, score = None,
            scoreBreakdown =
              Some \<lparr>interestMatch = Fin 300, skillMatch = Fin 0, locationMatch = Fin 50,
                    popularity = Fin 1, recency = Fin 100, explore = Fin 0\<rparr>\<rparr>], [])"
proof -
  have conn: "getDB store0 = Inr store0"
    by (simp add: getDB_def store0_def)
  have prof: "findOne_profile store0 ''u2'' = Inr (Some profile_tech)"
    by (simp add: findOne_profile_def store0_def)
  have pref: "findOne_preferences store0 ''u2'' = Inr None"
    by (simp add: findOne_preferences_def store0_def)
  have items: "getActiveContent store0 ''job'' =
      Inr [job_a\<lparr>ctype := Some ''job''\<rparr>, job_b\<lparr>ctype := Some ''job''\<rparr>]"
    using active_jobs_store0 [of "user_preferences store0"] by simp
  have en: "enumerate 0 [job_a\<lparr>ctype := Some ''job''\<rparr>, job_b\<lparr>ctype := Some ''job''\<rparr>] =
      [(0, job_a\<lparr>ctype := Some ''job''\<rparr>), (1, job_b\<lparr>ctype := Some ''job''\<rparr>)]"
    by (simp add: enumerate_eq_zip upt_rec)
  show ?thesis
    by (simp add: getRecommendations_def recommend_body_def conn prof pref items en
        score_job_a score_job_b bind_e_def catch_e_def js_sort_def by_score_def js_sub_def
        js_positive_def slice0_def strip_score_def)
qed

text \<open>The sort of the cold start is the stable sort of the library by descending sum of
  the three counters.\<close>

lemma by_score_cold:
  "js_positive (by_score (cold_candidate x) (cold_candidate y)) \<longleftrightarrow>
   rawPopularity x < rawPopularity y"
  by (simp add: by_score_def cold_candidate_def js_sub_def js_positive_def)

lemma insert_by_cold:
  "insert_by by_score (cold_candidate x) (map cold_candidate ys) =
   map cold_candidate (insort_key (\<lambda>d. - int (rawPopularity d)) x ys)"
  by (induction ys) (auto simp: by_score_cold)

lemma js_sort_cold:
  "js_sort by_score (map cold_candidate xs) =
   map cold_candidate (sort_key (\<lambda>d. - int (rawPopularity d)) xs)"
  by (induction xs) (simp_all add: js_sort_def sort_key_def insert_by_cold)

lemma descending_sort_key:
  "sorted_wrt (\<ge>) (map rawPopularity (take n (sort_key (\<lambda>d. - int (rawPopularity d)) xs)))"
proof -
  have "sorted (map (\<lambda>d. - int (rawPopularity d)) (sort_key (\<lambda>d. - int (rawPopularity d)) xs))"
    by (rule sorted_sort_key)
  then have "sorted_wrt (\<lambda>a b. rawPopularity a \<ge> rawPopularity b)
               (sort_key (\<lambda>d. - int (rawPopularity d)) xs)"
    by (simp add: sorted_wrt_map)
  then have "sorted_wrt (\<lambda>a b. rawPopularity a \<ge> rawPopularity b)
               (take n (sort_key (\<lambda>d. - int (rawPopularity d)) xs))"
    by (rule sorted_wrt_take)
  then show ?thesis by (simp add: sorted_wrt_map)
qed

lemma strip_cold:
  "strip_score (cold_candidate d) = \<lparr>content = d, score = None, scoreBreakdown = None\<rparr>"
  by (simp add: strip_score_def cold_candidate_def)

lemma bind_e_Inr: "bind_e m f = Inr y \<longleftrightarrow> (\<exists>x. m = Inr x \<and> f x = Inr y)"
  by (cases m) (simp_all add: bind_e_def)

lemma getDB_Inr: "getDB db = Inr x \<longleftrightarrow> connected db \<and> x = db"
  by (auto simp: getDB_def)

lemma active_of_answers:
  assumes "contentType = ''all'' \<or> contentType = name \<longrightarrow> Find c \<notin> failing db"
  shows "active_of db contentType name c =
     Inr (if contentType = ''all'' \<or> contentType = name
          then map (\<lambda>d. d\<lparr>ctype := Some name\<rparr>)
                   (filter (\<lambda>d. status d = ''active'') (documents db c))
          else [])"
  using assms by (simp add: active_of_def find_active_def bind_e_def)

lemma getActiveContent_answers:
  assumes "\<not> store_fails db contentType"
  shows "getActiveContent db contentType = Inr (active_items db contentType)"
proof -
  from assms have conn: "connected db"
    and os: "contentType = ''all'' \<or> contentType = ''opportunity'' \<longrightarrow>
             Find Opportunities \<notin> failing db"
    and es: "contentType = ''all'' \<or> contentType = ''event'' \<longrightarrow> Find Events \<notin> failing db"
    and js: "contentType = ''all'' \<or> contentType = ''job'' \<longrightarrow> Find Jobs \<notin> failing db"
    and rs: "contentType = ''all'' \<or> contentType = ''resource'' \<longrightarrow>
             Find Resources \<notin> failing db"
    by (auto simp: store_fails_def content_collections_def)
  show ?thesis
    by (simp add: getActiveContent_def getDB_def conn bind_e_def active_of_answers [OF os]
        active_of_answers [OF es] active_of_answers [OF js] active_of_answers [OF rs]
        active_items_def split del: if_split cong: if_cong)
qed

lemma rawPopularity_sum:
  "(case likes_count d of None \<Rightarrow> 0 | Some n \<Rightarrow> n) +
   (case saves_count d of None \<Rightarrow> 0 | Some n \<Rightarrow> n) +
   (case views d of None \<Rightarrow> 0 | Some n \<Rightarrow> n) = rawPopularity d"
  by (simp add: rawPopularity_def split: option.splits)

text \<open>
  Claim C5. For every user with neither a profile nor a preferences document (and a
  store that answers the request), \<^verbatim>\<open>getRecommendations\<close> returns exactly the list that
  \<^verbatim>\<open>getColdStartRecommendations\<close> returns for the same type and limit. That list is the
  active items of the requested type, in descending order of
  \<open>likes_count + saves_count + views\<close> (a missing counter counting as 0) and of nothing
  else, items of equal sum keeping the order of the store, cut to the limit, each with
  its score removed.
\<close>

theorem getRecommendations_cold_start:
  assumes answers: "\<not> store_fails db contentType"
    and profile: "user_profiles db userId = None"
    and preferences: "user_preferences db userId = None"
    and limit: "0 \<le> limit"
  shows "let key = (\<lambda>d. (case likes_count d of None \<Rightarrow> 0 | Some n \<Rightarrow> n) +
                         (case saves_count d of None \<Rightarrow> 0 | Some n \<Rightarrow> n) +
                         (case views d of None \<Rightarrow> 0 | Some n \<Rightarrow> n));
             ranking = take (nat limit)
                         (sort_key (\<lambda>d. - int (key d)) (active_items db contentType));
             rs = map (\<lambda>d. \<lparr>content = d, score = None, scoreBreakdown = None\<rparr>) ranking
         in getColdStartRecommendations db contentType limit = Inr rs \<and>
            getRecommendations now rand db userId contentType limit = Inr (rs, []) \<and>
            sorted_wrt (\<ge>) (map key ranking) \<and>
            length rs \<le> nat limit"
proof -
  let ?ranking = "take (nat limit)
      (sort_key (\<lambda>d. - int (rawPopularity d)) (active_items db contentType))"
  let ?rs = "map (\<lambda>d. \<lparr>content = d, score = None, scoreBreakdown = None\<rparr>) ?ranking"
  from answers have conn: "getDB db = Inr db"
    and prof: "findOne_profile db userId = Inr (user_profiles db userId)"
    and pref: "findOne_preferences db userId = Inr (user_preferences db userId)"
    by (simp_all add: store_fails_def getDB_def findOne_profile_def findOne_preferences_def)
  from limit have cold: "getColdStartRecommendations db contentType limit = Inr ?rs"
    by (simp add: getColdStartRecommendations_def conn getActiveContent_answers [OF answers]
        bind_e_def js_sort_cold slice0_def take_map strip_cold)
  have same: "getRecommendations now rand db userId contentType limit = Inr (?rs, [])"
    unfolding getRecommendations_def recommend_body_def
    by (simp add: conn prof pref profile preferences cold bind_e_def catch_e_def)
  have desc: "sorted_wrt (\<ge>) (map rawPopularity ?ranking)"
    by (rule descending_sort_key)
  have len: "length ?rs \<le> nat limit" by simp
  from cold same desc len show ?thesis
    unfolding Let_def rawPopularity_sum by (intro conjI)
qed

theorem getRecommendations_cold_start_witness:
  "\<not> store_fails store1 ''job'' \<and> user_profiles store1 ''u1'' = None \<and>
   user_preferences store1 ''u1'' = None \<and> (0::int) \<le> 2 \<and>
   getColdStartRecommendations store1 ''job'' 2 =
     Inr [\<lparr>content = job_e\<lparr>ctype := Some ''job''\<rparr>, score = None, scoreBreakdown = None\<rparr>,
          \<lparr>content = job_f\<lparr>ctype := Some ''job''\<rparr>, score = None, scoreBreakdown = None\<rparr>] \<and>
   getRecommendations 0 (\<lambda>k. 0) store1 ''u1'' ''job'' 2 =
     Inr ([\<lparr>content = job_e\<lparr>ctype := Some ''job''\<rparr>, score = None, scoreBreakdown = None\<rparr>,
           \<lparr>content = job_f\<lparr>ctype := Some ''job''\<rparr>, score = None, scoreBreakdown = None\<rparr>], [])"
proof -
  have h1: "\<not> store_fails store1 ''job''"
    by (simp add: store_fails_def content_collections_def store1_def)
  have h2: "user_profiles store1 ''u1'' = None" by (simp add: store1_def)
  have h3: "user_preferences store1 ''u1'' = None" by (simp add: store1_def)
  have h4: "(0::int) \<le> 2" by simp
  have items: "active_items store1 ''job'' =
      [job_d\<lparr>ctype := Some ''job''\<rparr>, job_e\<lparr>ctype := Some ''job''\<rparr>, job_f\<lparr>ctype := Some ''job''\<rparr>]"
    by (simp add: active_items_def store1_def job_d_def job_e_def job_f_def job_c_def)
  have keys: "rawPopularity (job_d\<lparr>ctype := Some ''job''\<rparr>) = 10"
    "rawPopularity (job_e\<lparr>ctype := Some ''job''\<rparr>) = 22"
    "rawPopularity (job_f\<lparr>ctype := Some ''job''\<rparr>) = 11"
    by (simp_all add: rawPopularity_def job_d_def job_e_def job_f_def)
  have ranking: "take (nat 2) (sort_key (\<lambda>d. - int (rawPopularity d)) (active_items store1 ''job'')) =
      [job_e\<lparr>ctype := Some ''job''\<rparr>, job_f\<lparr>ctype := Some ''job''\<rparr>]"
    unfolding items by (simp add: sort_key_def keys)
  from getRecommendations_cold_start [OF h1 h2 h3 h4, of 0 "\<lambda>k. 0"]
  have "getColdStartRecommendations store1 ''job'' 2 =
     Inr [\<lparr>content = job_e\<lparr>ctype := Some ''job''\<rparr>, score = None, scoreBreakdown = None\<rparr>,
          \<lparr>content = job_f\<lparr>ctype := Some ''job''\<rparr>, score = None, scoreBreakdown = None\<rparr>]"
    and "getRecommendations 0 (\<lambda>k. 0) store1 ''u1'' ''job'' 2 =
     Inr ([\<lparr>content = job_e\<lparr>ctype := Some ''job''\<rparr>, score = None, scoreBreakdown = None\<rparr>,
           \<lparr>content = job_f\<lparr>ctype := Some ''job''\<rparr>, score = None, scoreBreakdown = None\<rparr>], [])"
    unfolding Let_def rawPopularity_sum ranking by simp_all
  with h1 h2 h3 h4 show ?thesis by (intro conjI)
qed

lemma length_slice0: "0 \<le> limit \<Longrightarrow> length (slice0 limit xs) \<le> nat limit"
  by (simp add: slice0_def)

text \<open>The part of claim C4 that holds: a ranking request returns at most \<open>limit\<close> objects,
  for a limit that is not negative.\<close>

lemma getRecommendations_at_most_limit:
  assumes "getRecommendations now rand db userId contentType limit = Inr (rs, out)"
    and "0 \<le> limit"
  shows "length rs \<le> nat limit"
proof (cases "recommend_body now rand db userId contentType limit")
  case (Inl e)
  with assms(1) show ?thesis
    by (simp add: getRecommendations_def bind_e_def catch_e_def)
next
  case (Inr r)
  with assms(1) have r: "r = rs"
    by (simp add: getRecommendations_def bind_e_def catch_e_def)
  from Inr have "\<exists>xs. rs = map strip_score (slice0 limit xs)"
    unfolding r
    by (auto simp: recommend_body_def getColdStartRecommendations_def bind_e_Inr
        split: if_splits)
  with assms(2) show ?thesis
    by (auto simp: length_slice0)
qed

subsection \<open>Learning\<close>

text \<open>On an ordinary key the update adds the increment to the number under the key.\<close>

lemma ordinary_not_inherited:
  assumes "ordinary_key m k"
  shows "map_of object_prototype k = None" and "k \<noteq> ''__proto__''"
proof -
  from assms have k: "k \<notin> fst ` set object_prototype" by (simp add: ordinary_key_def)
  then show "map_of object_prototype k = None" by (simp add: map_of_eq_None_iff)
  have "''__proto__'' \<in> fst ` set object_prototype" by (simp add: object_prototype_def)
  with k show "k \<noteq> ''__proto__''" by blast
qed

lemma bump_ordinary:
  assumes "ordinary_key m k"
  shows "bump i k m = m(k \<mapsto> Num (weight_at m k + inc_num i))"
proof (cases "m k")
  case None
  with ordinary_not_inherited [OF assms] show ?thesis
    by (simp add: bump_def get_member_def set_member_def weight_at_def)
next
  case (Some v)
  with assms obtain a where "v = Num a"
    by (cases v) (simp_all add: ordinary_key_def)
  with Some ordinary_not_inherited [OF assms] show ?thesis
    by (simp add: bump_def get_member_def set_member_def weight_at_def)
qed

lemma weight_bump:
  "ordinary_key m k \<Longrightarrow>
   weight_at (bump i k m) t = weight_at m t + (if t = k then inc_num i else 0)"
  by (simp add: bump_ordinary) (simp add: weight_at_def)

lemma ordinary_bump:
  "ordinary_key m k \<Longrightarrow> ordinary_key m t \<Longrightarrow> ordinary_key (bump i k m) t"
  by (simp add: bump_ordinary) (simp add: ordinary_key_def)

lemma ordinary_fold_bump:
  "\<forall>k \<in> set ks. ordinary_key m k \<Longrightarrow> ordinary_key m t \<Longrightarrow>
   ordinary_key (fold (bump i) ks m) t"
  by (induction ks arbitrary: m) (simp_all add: ordinary_bump)

lemma weight_fold_bump:
  "\<forall>k \<in> set ks. ordinary_key m k \<Longrightarrow>
   weight_at (fold (bump i) ks m) t = weight_at m t + inc_num i * real (count_list ks t)"
proof (induction ks arbitrary: m)
  case Nil
  then show ?case by simp
next
  case (Cons k ks)
  from Cons.prems have k: "ordinary_key m k" and "\<forall>k' \<in> set ks. ordinary_key m k'"
    by simp_all
  then have "\<forall>k' \<in> set ks. ordinary_key (bump i k m) k'"
    by (simp add: ordinary_bump)
  from Cons.IH [OF this] k show ?case
    by (simp add: weight_bump algebra_simps)
qed

lemma count_list_distinct:
  "distinct ks \<Longrightarrow> t \<in> set ks \<Longrightarrow> count_list ks t = 1"
  by (induction ks) auto

lemma learned_interest:
  assumes "user_preferences db userId = Some p"
    and "\<forall>k \<in> set (or_nil (tags itemData)). ordinary_key (or_object (pref_interests p)) k"
  shows "interest_weight (learned now db userId i b itemData) userId t =
         interest_weight db userId t + inc_num i * real (count_list (or_nil (tags itemData)) t)"
  using assms by (simp add: learned_def interest_weight_def weight_fold_bump)

lemma learned_skill:
  assumes "user_preferences db userId = Some p"
    and "\<forall>k \<in> set (or_nil (requirements itemData)). ordinary_key (or_object (pref_skills p)) k"
  shows "skill_weight (learned now db userId i True itemData) userId r =
         skill_weight db userId r +
         inc_num i * real (count_list (or_nil (requirements itemData)) r)"
  using assms by (simp add: learned_def skill_weight_def weight_fold_bump)

lemma learned_skill_untouched:
  "map_option pref_skills (user_preferences (learned now db userId i False itemData) userId) =
   map_option pref_skills (user_preferences db userId)"
  by (auto simp: learned_def split: option.splits)

lemma learned_frame:
  "connected (learned now db userId i b itemData) = connected db"
  "failing (learned now db userId i b itemData) = failing db"
  by (auto simp: learned_def split: option.splits)

lemma learned_document:
  assumes "user_preferences db userId = Some p"
  shows "\<exists>p1. user_preferences (learned now db userId i b itemData) userId = Some p1 \<and>
           pref_interests p1 =
             Some (fold (bump i) (or_nil (tags itemData)) (or_object (pref_interests p)))"
  using assms by (simp add: learned_def)

text \<open>The part of claim C6 that holds. For a user whose preferences document exists, a
  store that accepts the lookup and the update, and an item whose tags and requirements
  are ordinary keys of the stored weight objects: a save or a like adds 1 to the
  interest weight of a tag for every occurrence of the tag in the snapshot, and 1 to
  the skill weight of a requirement for every occurrence; a click-through adds 0.5 per
  occurrence of a tag and leaves the skills as they are; and the same like applied
  twice adds 2 per occurrence.\<close>

lemma learning_adds_on_ordinary_keys:
  assumes conn: "connected db"
    and rd: "FindOne UserPreferences \<notin> failing db"
    and wr: "UpdateOne UserPreferences \<notin> failing db"
    and doc: "user_preferences db userId = Some p"
    and ts: "\<forall>k \<in> set (or_nil (tags itemData)). ordinary_key (or_object (pref_interests p)) k"
    and rs: "\<forall>k \<in> set (or_nil (requirements itemData)).
               ordinary_key (or_object (pref_skills p)) k"
  shows
    "(\<forall>e \<in> {''save'', ''like''}. \<exists>db1.
        updatePreferencesFromEngagement now db userId e itemData = Inr (db1, []) \<and>
        (\<forall>t. interest_weight db1 userId t =
              interest_weight db userId t + real (count_list (or_nil (tags itemData)) t)) \<and>
        (\<forall>r. skill_weight db1 userId r =
              skill_weight db userId r + real (count_list (or_nil (requirements itemData)) r))) \<and>
     (\<exists>db1.
        updatePreferencesFromEngagement now db userId ''click_through'' itemData = Inr (db1, []) \<and>
        (\<forall>t. interest_weight db1 userId t =
              interest_weight db userId t + real (count_list (or_nil (tags itemData)) t) / 2) \<and>
        map_option pref_skills (user_preferences db1 userId) =
          map_option pref_skills (user_preferences db userId)) \<and>
     (\<exists>db1 db2.
        updatePreferencesFromEngagement now db userId ''like'' itemData = Inr (db1, []) \<and>
        updatePreferencesFromEngagement later db1 userId ''like'' itemData = Inr (db2, []) \<and>
        (\<forall>t. interest_weight db2 userId t =
              interest_weight db userId t + 2 * real (count_list (or_nil (tags itemData)) t)))"
    (is "(\<forall>e \<in> _. ?like e) \<and> ?click \<and> ?twice")
proof -
  let ?l = "\<lambda>n d. learned n d userId One True itemData"
  have like: "updatePreferencesFromEngagement now db userId e itemData = Inr (?l now db, [])"
    if "e = ''save'' \<or> e = ''like''" for e
    using learn_like [OF conn rd wr doc that] .
  have one: "?like e" if "e \<in> {''save'', ''like''}" for e
  proof -
    from that have e: "e = ''save'' \<or> e = ''like''" by blast
    show ?thesis
      by (rule exI [of _ "?l now db"])
        (simp add: like [OF e] learned_interest [OF doc ts] learned_skill [OF doc rs])
  qed
  have two: ?click
    by (rule exI [of _ "learned now db userId Half False itemData"])
      (simp add: learn_click [OF conn rd wr doc] learned_interest [OF doc ts]
        learned_skill_untouched)
  from learned_document [OF doc, of now One True itemData]
  obtain p1 where p1: "user_preferences (?l now db) userId = Some p1"
    and i1: "pref_interests p1 =
        Some (fold (bump One) (or_nil (tags itemData)) (or_object (pref_interests p)))"
    by blast
  have ts1: "\<forall>k \<in> set (or_nil (tags itemData)). ordinary_key (or_object (pref_interests p1)) k"
    using ts by (simp add: i1 ordinary_fold_bump)
  have again: "updatePreferencesFromEngagement later (?l now db) userId ''like'' itemData =
      Inr (?l later (?l now db), [])"
    by (rule learn_like [OF _ _ _ p1]) (simp_all add: learned_frame conn rd wr)
  have three: ?twice
    by (rule exI [of _ "?l now db"], rule exI [of _ "?l later (?l now db)"])
      (simp add: like again learned_interest [OF doc ts] learned_interest [OF p1 ts1])
  from one two three show ?thesis by blast
qed

text \<open>
  Claim C6, evaluated where it fails. The claim says that a like adds 1 to the interest
  weight of every tag of the snapshot, and that the same like applied twice leaves a
  tag not seen before with the weight 2. User \<open>u4\<close> has a preferences document without
  any weight, and the item has the tags "constructor" and "build". The weight object is
  a plain object, so the lookup of "constructor" finds the member that every object
  inherits: after the first like the object holds the text
  \<^verbatim>\<open>function Object() { [native code] }1\<close> under that tag, and after the second like the
  same text with \<^verbatim>\<open>11\<close> at its end; the tag "build" of the same item has the weights 1
  and 2.
\<close>

theorem like_of_inherited_name_stores_text:
  "Option.bind (user_preferences store0 ''u4'') pref_interests = None \<and>
   (\<exists>db1 db2.
      updatePreferencesFromEngagement 1 store0 ''u4'' ''like'' job_g = Inr (db1, []) \<and>
      Option.bind (user_preferences db1 ''u4'') pref_interests =
        Some [''constructor'' \<mapsto> Str ''function Object() { [native code] }1'',
              ''build'' \<mapsto> Num 1] \<and>
      updatePreferencesFromEngagement 2 db1 ''u4'' ''like'' job_g = Inr (db2, []) \<and>
      Option.bind (user_preferences db2 ''u4'') pref_interests =
        Some [''constructor'' \<mapsto> Str ''function Object() { [native code] }11'',
              ''build'' \<mapsto> Num 2])"
proof -
  let ?m1 = "[''constructor'' \<mapsto> Str ''function Object() { [native code] }1'',
              ''build'' \<mapsto> Num 1]"
  let ?m2 = "[''constructor'' \<mapsto> Str ''function Object() { [native code] }11'',
              ''build'' \<mapsto> Num 2]"
  let ?db1 = "learned 1 store0 ''u4'' One True job_g"
  let ?db2 = "learned 2 ?db1 ''u4'' One True job_g"
  have unseen: "Option.bind (user_preferences store0 ''u4'') pref_interests = None"
    by (simp add: store0_def preferences_new_def)
  have f1: "fold (bump One) [''constructor'', ''build''] Map.empty = ?m1"
    by (simp add: bump_def get_member_def set_member_def object_prototype_def)
  have f2: "fold (bump One) [''constructor'', ''build''] ?m1 = ?m2"
    by (rule ext) (simp add: bump_def get_member_def set_member_def object_prototype_def)
  have doc0: "user_preferences store0 ''u4'' = Some preferences_new"
    by (simp add: store0_def)
  have like1: "updatePreferencesFromEngagement 1 store0 ''u4'' ''like'' job_g = Inr (?db1, [])"
    by (rule learn_like [OF _ _ _ doc0]) (simp_all add: store0_def)
  have ts: "or_nil (tags job_g) = [''constructor'', ''build'']"
    by (simp add: job_g_def)
  have o0: "or_object (pref_interests preferences_new) = Map.empty"
    by (simp add: preferences_new_def)
  from learned_document [OF doc0, of 1 One True job_g]
  obtain p1 where p1: "user_preferences ?db1 ''u4'' = Some p1"
    and "pref_interests p1 =
        Some (fold (bump One) (or_nil (tags job_g)) (or_object (pref_interests preferences_new)))"
    by blast
  then have i1: "pref_interests p1 = Some ?m1"
    by (simp only: ts o0 f1)
  then have o1: "or_object (pref_interests p1) = ?m1"
    by simp
  have like2: "updatePreferencesFromEngagement 2 ?db1 ''u4'' ''like'' job_g = Inr (?db2, [])"
    by (rule learn_like [OF _ _ _ p1]) (simp_all add: learned_frame store0_def)
  from learned_document [OF p1, of 2 One True job_g]
  obtain p2 where p2: "user_preferences ?db2 ''u4'' = Some p2"
    and "pref_interests p2 =
        Some (fold (bump One) (or_nil (tags job_g)) (or_object (pref_interests p1)))"
    by blast
  then have i2: "pref_interests p2 = Some ?m2"
    by (simp only: ts o1 f2)
  have s1: "Option.bind (user_preferences ?db1 ''u4'') pref_interests = Some ?m1"
    by (simp add: p1 i1)
  have s2: "Option.bind (user_preferences ?db2 ''u4'') pref_interests = Some ?m2"
    by (simp add: p2 i2)
  from unseen like1 s1 like2 s2 show ?thesis by blast
qed

subsection \<open>Errors\<close>

lemma getActiveContent_fails:
  assumes "list_ex (\<lambda>(name, c). (contentType = ''all'' \<or> contentType = name) \<and>
             Find c \<in> failing db) content_collections"
  shows "\<exists>e. getActiveContent db contentType = Inl e"
  using assms
  unfolding getActiveContent_def active_of_def find_active_def getDB_def bind_e_def
    content_collections_def
  by (auto split: sum.splits)

lemma recommend_body_fails:
  assumes "store_fails db contentType"
  shows "\<exists>e. recommend_body now rand db userId contentType limit = Inl e"
proof (cases "connected db \<and> FindOne UserProfiles \<notin> failing db \<and>
              FindOne UserPreferences \<notin> failing db")
  case True
  with assms have "list_ex (\<lambda>(name, c). (contentType = ''all'' \<or> contentType = name) \<and>
      Find c \<in> failing db) content_collections"
    by (simp add: store_fails_def)
  then obtain e where e: "getActiveContent db contentType = Inl e"
    using getActiveContent_fails by blast
  from True show ?thesis
    by (simp add: recommend_body_def getColdStartRecommendations_def getDB_def findOne_profile_def
        findOne_preferences_def bind_e_def e)
next
  case False
  then show ?thesis
    by (auto simp: recommend_body_def getDB_def findOne_profile_def findOne_preferences_def
        bind_e_def)
qed

lemma getColdStart_fails:
  assumes "\<not> connected db \<or>
      list_ex (\<lambda>(name, c). (contentType = ''all'' \<or> contentType = name) \<and>
        Find c \<in> failing db) content_collections"
  shows "\<exists>x. getColdStartRecommendations db contentType limit = Inl x"
proof (cases "connected db")
  case True
  with assms obtain x where "getActiveContent db contentType = Inl x"
    using getActiveContent_fails by blast
  with True show ?thesis
    by (simp add: getColdStartRecommendations_def getDB_def bind_e_def)
next
  case False
  then show ?thesis
    by (simp add: getColdStartRecommendations_def getDB_def bind_e_def)
qed

lemma getRecommendations_total:
  "\<exists>rs out. getRecommendations now rand db userId contentType limit = Inr (rs, out)"
  by (cases "recommend_body now rand db userId contentType limit")
    (simp_all add: getRecommendations_def bind_e_def catch_e_def)

lemma learn_total:
  "\<exists>db' out. updatePreferencesFromEngagement now db userId e itemData = Inr (db', out)"
  by (cases "learn_body now db userId e itemData")
    (simp_all add: updatePreferencesFromEngagement_def bind_e_def catch_e_def)

lemma learn_absent:
  assumes "user_preferences db userId = None"
  shows "learn_body now db userId e itemData = Inr db \<or>
         (\<exists>x. learn_body now db userId e itemData = Inl x)"
  using assms
  by (auto simp: learn_body_def getDB_def findOne_preferences_def bind_e_def)

lemma learn_absent_quiet:
  assumes "user_preferences db userId = None" "connected db"
    "FindOne UserPreferences \<notin> failing db"
  shows "learn_body now db userId e itemData = Inr db"
  using assms
  by (simp add: learn_body_def getDB_def findOne_preferences_def bind_e_def)

text \<open>The two operations with a \<^verbatim>\<open>try\<close> block never pass an error on to their caller.
  \<^verbatim>\<open>getRecommendations\<close> always returns a list, and when the content or preference store
  fails during the request it returns the empty list and logs the error.
  \<^verbatim>\<open>updatePreferencesFromEngagement\<close> always returns; when the user has no preferences
  document it leaves the store as it is, and it does so silently when the lookup itself
  succeeds. \<^verbatim>\<open>getColdStartRecommendations\<close> fails whenever the store does.\<close>

lemma ranking_and_learning_swallow_errors:
  "(\<exists>rs out. getRecommendations now rand db userId contentType limit = Inr (rs, out)) \<and>
   (store_fails db contentType \<longrightarrow>
      getRecommendations now rand db userId contentType limit =
        Inr ([], [''Recommendation error:''])) \<and>
   (\<exists>db' out. updatePreferencesFromEngagement now db userId e itemData = Inr (db', out)) \<and>
   (user_preferences db userId = None \<longrightarrow>
      (\<exists>out. updatePreferencesFromEngagement now db userId e itemData = Inr (db, out)) \<and>
      (connected db \<and> FindOne UserPreferences \<notin> failing db \<longrightarrow>
         updatePreferencesFromEngagement now db userId e itemData = Inr (db, []))) \<and>
   (\<not> connected db \<or>
    list_ex (\<lambda>(name, c). (contentType = ''all'' \<or> contentType = name) \<and>
      Find c \<in> failing db) content_collections \<longrightarrow>
      (\<exists>x. getColdStartRecommendations db contentType limit = Inl x))"
proof -
  have fails: "getRecommendations now rand db userId contentType limit =
        Inr ([], [''Recommendation error:''])" if "store_fails db contentType"
  proof -
    from recommend_body_fails [OF that] obtain x
      where "recommend_body now rand db userId contentType limit = Inl x" by blast
    then show ?thesis by (simp add: getRecommendations_def bind_e_def catch_e_def)
  qed
  have absent: "\<exists>out. updatePreferencesFromEngagement now db userId e itemData = Inr (db, out)"
    if "user_preferences db userId = None"
    using learn_absent [OF that, of now e itemData]
    by (auto simp: updatePreferencesFromEngagement_def bind_e_def catch_e_def)
  have quiet: "updatePreferencesFromEngagement now db userId e itemData = Inr (db, [])"
    if "user_preferences db userId = None" "connected db"
      "FindOne UserPreferences \<notin> failing db"
    using learn_absent_quiet [OF that, of now e itemData]
    by (simp add: updatePreferencesFromEngagement_def bind_e_def catch_e_def)
  from getRecommendations_total learn_total fails absent quiet getColdStart_fails
  show ?thesis by blast
qed

text \<open>
  Claim C7, evaluated where it fails. The claim says that no operation of the engine
  propagates an error to its caller. \<^verbatim>\<open>getColdStartRecommendations\<close>, the operation behind
  the trending requests, has no \<^verbatim>\<open>try\<close> block, unlike \<^verbatim>\<open>getRecommendations\<close> and
  \<^verbatim>\<open>updatePreferencesFromEngagement\<close>: without a connection to the store, or when the read
  of the collection is rejected, the error reaches the caller.
\<close>

theorem cold_start_propagates_errors:
  "getColdStartRecommendations (store0\<lparr>connected := False\<rparr>) ''all'' 20 = Inl NotConnected \<and>
   getColdStartRecommendations (store0\<lparr>failing := {Find Jobs}\<rparr>) ''job'' 20 = Inl StoreFailure"
  by (simp add: getColdStartRecommendations_def getActiveContent_def active_of_def
      find_active_def getDB_def bind_e_def store0_def)

end
